theory Spec2Isabelle
  imports Main
begin

section \<open>Values, tokens and errors\<close>

text \<open>
  Python values that tokens carry and that end up in constant nodes. A float is kept as a
  mantissa and a binary exponent; the parser only moves these values around.
\<close>

datatype pyval = PNone | PBool bool | PInt int | PFloat int int | PStr string

text \<open>Truth value of \<^verbatim>\<open>if token.value:\<close>.\<close>

fun truthy :: "pyval \<Rightarrow> bool" where
  "truthy PNone = False"
| "truthy (PBool b) = b"
| "truthy (PInt i) = (i \<noteq> 0)"
| "truthy (PFloat m e) = (m \<noteq> 0)"
| "truthy (PStr s) = (s \<noteq> [])"

text \<open>
  Modelled from the spec: the token of section 3, \<^verbatim>\<open>{kind, value, line}\<close>; the lexer that
  declares it is not among the sources. The parser reads the three attributes
  \<^verbatim>\<open>token.lineno\<close>, \<^verbatim>\<open>token.type\<close> and \<^verbatim>\<open>token.value\<close>. Token kinds are the strings the
  parser compares against; its identity tests (\<^verbatim>\<open>is\<close>) on kinds are equality here.
\<close>

record token =
  lineno :: int
  type :: string
  val :: pyval

text \<open>
  What a node's \<^verbatim>\<open>lineno\<close> attribute can hold: nothing (the node was built without the
  keyword argument), an integer, or whatever other object the parser passed; the only
  such object in this parser is a token.
\<close>

datatype lineval = NoLine | Line int | TokLine token

text \<open>
  Error messages are kept as the format string and its arguments; \<^verbatim>\<open>%s\<close> and \<^verbatim>\<open>%r\<close> of
  a value and \<^verbatim>\<open>%s\<close> of a token are not rendered. The message of a failed
  \<^verbatim>\<open>stream.expect\<close> is produced by the lexer module and is kept as the expected kind, the
  expected value if any, and the token found.
\<close>

datatype fmtarg = Str pyval | Repr pyval | StrTok token

datatype message =
    Format string "fmtarg list"
  | ExpectFailed string "pyval option" token

datatype error =
    TemplateSyntaxError message lineval "string option"
  | NameError string
  | AttributeError string
  | TypeError string
  | AssertionError string
  | OutOfFuel

section \<open>The token stream\<close>

text \<open>
  Modelled from the spec: the token stream interface of section 4.1 (current, peek,
  advance returning the token skipped, expect, test, has-more); the lexer module that
  implements it is not among the sources. The stream holds the current token and the
  tokens still to come. Past the last token the current token is an end-of-input token
  of kind \<^verbatim>\<open>eof\<close> on the line of the last token, and advancing stays there.
\<close>

record stream =
  current :: token
  pending :: "token list"
  name :: "string option"

definition eof_token :: "stream \<Rightarrow> token" where
  "eof_token s = \<lparr>lineno = lineno (current s), type = ''eof'', val = PStr ''''\<rparr>"

definition advance :: "stream \<Rightarrow> stream" where
  "advance s =
     (case pending s of
        t # ts \<Rightarrow> s\<lparr>current := t, pending := ts\<rparr>
      | [] \<Rightarrow> s\<lparr>current := eof_token s\<rparr>)"

definition has_more :: "stream \<Rightarrow> bool" where
  "has_more s = (type (current s) \<noteq> ''eof'')"

text \<open>\<^verbatim>\<open>token.test('kind:value')\<close>: the kind and the value both agree.\<close>

definition test_value :: "token \<Rightarrow> string \<Rightarrow> pyval \<Rightarrow> bool" where
  "test_value t kind v = (type t = kind \<and> val t = v)"

section \<open>Parsers as state-passing functions with errors\<close>

type_synonym 'a parser = "stream \<Rightarrow> error + 'a \<times> stream"

definition ret :: "'a \<Rightarrow> 'a parser" where
  "ret a s = Inr (a, s)"

definition raise :: "error \<Rightarrow> 'a parser" where
  "raise e s = Inl e"

definition bnd :: "'a parser \<Rightarrow> ('a \<Rightarrow> 'b parser) \<Rightarrow> 'b parser" where
  "bnd m f s = (case m s of Inl e \<Rightarrow> Inl e | Inr (a, s') \<Rightarrow> f a s')"

definition seq :: "'a parser \<Rightarrow> 'b parser \<Rightarrow> 'b parser" where
  "seq m k s = (case m s of Inl e \<Rightarrow> Inl e | Inr (a, s') \<Rightarrow> k s')"

text \<open>Reading \<^verbatim>\<open>self.stream.current\<close>.\<close>

definition cur :: "(token \<Rightarrow> 'a parser) \<Rightarrow> 'a parser" where
  "cur f s = f (current s) s"

text \<open>Reading the truth value of \<^verbatim>\<open>self.stream\<close>, as in \<^verbatim>\<open>while self.stream:\<close>.\<close>

definition stream_nonzero :: "(bool \<Rightarrow> 'a parser) \<Rightarrow> 'a parser" where
  "stream_nonzero f s = f (has_more s) s"

text \<open>\<^verbatim>\<open>stream.next()\<close>: go one token ahead and return the old one.\<close>

definition stream_next :: "token parser" where
  "stream_next s = Inr (current s, advance s)"

text \<open>\<^verbatim>\<open>stream.look()\<close>: the token after the current one, without consuming.\<close>

definition peek :: "stream \<Rightarrow> token" where
  "peek s = (case pending s of t # ts \<Rightarrow> t | [] \<Rightarrow> eof_token s)"

definition stream_look :: "token parser" where
  "stream_look s = Inr (peek s, s)"

text \<open>\<^verbatim>\<open>stream.skip(2)\<close>.\<close>

definition stream_skip2 :: "unit parser" where
  "stream_skip2 s = Inr ((), advance (advance s))"

text \<open>\<^verbatim>\<open>stream.expect(kind)\<close> and \<^verbatim>\<open>stream.expect('kind:value')\<close>.\<close>

definition expect :: "string \<Rightarrow> token parser" where
  "expect kind s =
     (if type (current s) = kind then stream_next s
      else Inl (TemplateSyntaxError (ExpectFailed kind None (current s))
                  (Line (lineno (current s))) (name s)))"

definition expect_value :: "string \<Rightarrow> pyval \<Rightarrow> token parser" where
  "expect_value kind v s =
     (if test_value (current s) kind v then stream_next s
      else Inl (TemplateSyntaxError (ExpectFailed kind (Some v) (current s))
                  (Line (lineno (current s))) (name s)))"

section \<open>The node model\<close>

text \<open>
  Modelled from the spec: the node classes of section 3, with the fields in the order in
  which the parser passes them to the constructors of the \<^verbatim>\<open>nodes\<close> module (not among
  the sources). Every node ends with its \<^verbatim>\<open>lineno\<close> attribute. The context tag is the
  string the parser passes: \<^verbatim>\<open>load\<close>, \<^verbatim>\<open>store\<close> or \<^verbatim>\<open>param\<close>. Four constructors are renamed
  because HOL has constants of the same name: \<open>NotNode\<close>, \<open>PairNode\<close>, \<open>IfNode\<close> and \<open>PowNode\<close>
  stand for the classes Not, Pair, If and Pow.
\<close>

datatype expr =
    Const pyval lineval
  | Name pyval string lineval
  | Tuple "expr list" string lineval
  | List "expr list" lineval
  | Dict "pair list" lineval
  | Or expr expr lineval
  | And expr expr lineval
  | NotNode expr lineval
  | Compare expr "operand list" lineval
  | Add expr expr lineval
  | Sub expr expr lineval
  | Concat "expr list" lineval
  | Mul expr expr lineval
  | Div expr expr lineval
  | FloorDiv expr expr lineval
  | Mod expr expr lineval
  | PowNode expr expr lineval
  | Neg expr lineval
  | Pos expr lineval
  | CondExpr expr expr expr lineval
  | Subscript expr expr string lineval
  | Slice "expr option" "expr option" "expr option" lineval
  | Call expr "expr list" "keyword list" "expr option" "expr option" lineval
  | Filter "expr option" pyval "expr list" "keyword list" "expr option" "expr option" lineval
  | Test expr pyval "expr list" "keyword list" "expr option" "expr option" lineval
and pair = PairNode expr expr lineval
and operand = Operand string expr
and keyword = Keyword pyval expr lineval

text \<open>\<^verbatim>\<open>node.lineno\<close> of an expression node.\<close>

fun node_lineno :: "expr \<Rightarrow> lineval" where
  "node_lineno (Const v l) = l"
| "node_lineno (Name v c l) = l"
| "node_lineno (Tuple xs c l) = l"
| "node_lineno (List xs l) = l"
| "node_lineno (Dict ps l) = l"
| "node_lineno (Or a b l) = l"
| "node_lineno (And a b l) = l"
| "node_lineno (NotNode a l) = l"
| "node_lineno (Compare a ops l) = l"
| "node_lineno (Add a b l) = l"
| "node_lineno (Sub a b l) = l"
| "node_lineno (Concat xs l) = l"
| "node_lineno (Mul a b l) = l"
| "node_lineno (Div a b l) = l"
| "node_lineno (FloorDiv a b l) = l"
| "node_lineno (Mod a b l) = l"
| "node_lineno (PowNode a b l) = l"
| "node_lineno (Neg a l) = l"
| "node_lineno (Pos a l) = l"
| "node_lineno (CondExpr a b c l) = l"
| "node_lineno (Subscript a b c l) = l"
| "node_lineno (Slice a b c l) = l"
| "node_lineno (Call f xs ks da dk l) = l"
| "node_lineno (Filter a f xs ks da dk l) = l"
| "node_lineno (Test a f xs ks da dk l) = l"

text \<open>\<^verbatim>\<open>node.__class__.__name__\<close>: the name of the class in the \<^verbatim>\<open>nodes\<close> module.\<close>

fun class_name :: "expr \<Rightarrow> string" where
  "class_name (Const v l) = ''Const''"
| "class_name (Name v c l) = ''Name''"
| "class_name (Tuple xs c l) = ''Tuple''"
| "class_name (List xs l) = ''List''"
| "class_name (Dict ps l) = ''Dict''"
| "class_name (Or a b l) = ''Or''"
| "class_name (And a b l) = ''And''"
| "class_name (NotNode a l) = ''Not''"
| "class_name (Compare a ops l) = ''Compare''"
| "class_name (Add a b l) = ''Add''"
| "class_name (Sub a b l) = ''Sub''"
| "class_name (Concat xs l) = ''Concat''"
| "class_name (Mul a b l) = ''Mul''"
| "class_name (Div a b l) = ''Div''"
| "class_name (FloorDiv a b l) = ''FloorDiv''"
| "class_name (Mod a b l) = ''Mod''"
| "class_name (PowNode a b l) = ''Pow''"
| "class_name (Neg a l) = ''Neg''"
| "class_name (Pos a l) = ''Pos''"
| "class_name (CondExpr a b c l) = ''CondExpr''"
| "class_name (Subscript a b c l) = ''Subscript''"
| "class_name (Slice a b c l) = ''Slice''"
| "class_name (Call f xs ks da dk l) = ''Call''"
| "class_name (Filter a f xs ks da dk l) = ''Filter''"
| "class_name (Test a f xs ks da dk l) = ''Test''"

text \<open>\<^verbatim>\<open>str.lower()\<close> on the ASCII letters.\<close>

definition lower_char :: "char \<Rightarrow> char" where
  "lower_char c =
     (if 65 \<le> (of_char c :: nat) \<and> (of_char c :: nat) \<le> 90
      then char_of ((of_char c :: nat) + 32) else c)"

definition lower :: "string \<Rightarrow> string" where
  "lower s = map lower_char s"

text \<open>A name of a from-import: the bare name, or the pair of name and alias.\<close>

datatype import_name = Plain pyval | Aliased pyval pyval

datatype stmt =
    Output "expr list" lineval
  | Assign expr expr lineval
  | For expr expr "stmt list" "stmt list" "expr option" lineval
  | IfNode expr "stmt list" "stmt list" lineval
  | Block pyval "stmt list" lineval
  | Extends expr lineval
  | Include expr lineval
  | Import expr pyval lineval
  | FromImport expr "import_name list" lineval
  | Macro pyval "expr list" "expr list" "stmt list" lineval
  | CallBlock "expr list" "expr list" expr "stmt list" lineval
  | FilterBlock "expr option" "stmt list" lineval
  | ExprStmt expr lineval

datatype template = Template "stmt list" lineval


section \<open>The parser object and the node methods it calls\<close>

text \<open>
  \<^verbatim>\<open>filename\<close> and \<^verbatim>\<open>extensions\<close> are the attributes of the parser object that the
  parsing methods read; an extension is a callback that parses its own statement. The
  methods \<^verbatim>\<open>can_assign\<close> and \<^verbatim>\<open>set_ctx\<close> belong to the node classes, which are not among
  the sources, so they are parameters of the model: \<^verbatim>\<open>can_assign\<close> is the capability
  check and \<^verbatim>\<open>set_ctx\<close> gives the node after the in-place update of its context.
\<close>

record env =
  filename :: "string option"
  extensions :: "pyval \<Rightarrow> stmt parser option"
  can_assign :: "expr \<Rightarrow> bool"
  set_ctx :: "string \<Rightarrow> expr \<Rightarrow> expr"

definition statement_end_tokens :: "string list" where
  "statement_end_tokens = [''variable_end'', ''block_end'', ''in'']"

definition statement_keywords :: "string list" where
  "statement_keywords = [''for'', ''if'', ''block'', ''extends'', ''print'',
                         ''macro'', ''include'', ''from'', ''import'']"

definition compare_operators :: "string list" where
  "compare_operators = [''eq'', ''ne'', ''lt'', ''lteq'', ''gt'', ''gteq'', ''in'']"

definition tuple_edge_tokens :: "string list" where
  "tuple_edge_tokens = ''rparen'' # statement_end_tokens"

section \<open>Expressions\<close>

text \<open>
  The methods of the expression grammar call each other in a cycle that always passes
  through \<^verbatim>\<open>parse_primary\<close>. Each method below takes that method as the argument
  \<open>primary\<close> and a bound \<open>n\<close> on the iterations of its loop and on the depth of its own
  recursion; \<^verbatim>\<open>parse_primary\<close> closes the cycle by recursion on the bound. A loop or a
  recursion that exceeds the bound is the error \<open>OutOfFuel\<close>.
\<close>

subsection \<open>The binary levels\<close>

text \<open>
  \<^verbatim>\<open>parse_or\<close>, \<^verbatim>\<open>parse_and\<close>, \<^verbatim>\<open>parse_add\<close>, \<^verbatim>\<open>parse_sub\<close>, \<^verbatim>\<open>parse_mul\<close>, \<^verbatim>\<open>parse_div\<close>,
  \<^verbatim>\<open>parse_floordiv\<close>, \<^verbatim>\<open>parse_mod\<close> and \<^verbatim>\<open>parse_pow\<close> are the same method body over a
  different token kind, node class and next-tighter level:

  \<^verbatim>\<open>lineno = self.stream.current.lineno; left = self.parse_sub()\<close>
  \<^verbatim>\<open>while self.stream.current.type is 'add':\<close>
  \<^verbatim>\<open>    self.stream.next(); right = self.parse_sub()\<close>
  \<^verbatim>\<open>    left = nodes.Add(left, right, lineno=lineno)\<close>
  \<^verbatim>\<open>    lineno = self.stream.current.lineno\<close>
  \<^verbatim>\<open>return left\<close>

  It is written once, as \<open>binary\<close>, with the loop as \<open>binary_loop\<close>.
\<close>

primrec binary_loop ::
  "nat \<Rightarrow> string \<Rightarrow> (expr \<Rightarrow> expr \<Rightarrow> lineval \<Rightarrow> expr) \<Rightarrow> expr parser \<Rightarrow> int \<Rightarrow> expr \<Rightarrow> expr parser"
where
  "binary_loop 0 kind mk sub lno left s = Inl OutOfFuel"
| "binary_loop (Suc n) kind mk sub lno left s =
     cur (\<lambda>t. if type t = kind
              then seq stream_next
                   (bnd sub (\<lambda>right.
                    cur (\<lambda>t'. binary_loop n kind mk sub (lineno t') (mk left right (Line lno)))))
              else ret left) s"

definition binary ::
  "nat \<Rightarrow> string \<Rightarrow> (expr \<Rightarrow> expr \<Rightarrow> lineval \<Rightarrow> expr) \<Rightarrow> expr parser \<Rightarrow> expr parser"
where
  "binary n kind mk sub s =
     cur (\<lambda>t. bnd sub (\<lambda>left. binary_loop n kind mk sub (lineno t) left)) s"

primrec parse_unary :: "nat \<Rightarrow> expr parser \<Rightarrow> expr parser" where
  "parse_unary 0 primary s = Inl OutOfFuel"
| "parse_unary (Suc n) primary s =
     cur (\<lambda>t.
       if type t = ''not''
       then seq stream_next
            (bnd (parse_unary n primary) (\<lambda>node. ret (NotNode node (Line (lineno t)))))
       else if type t = ''sub''
       then seq stream_next
            (bnd (parse_unary n primary) (\<lambda>node. ret (Neg node (Line (lineno t)))))
       else if type t = ''add''
       then seq stream_next
            (bnd (parse_unary n primary) (\<lambda>node. ret (Pos node (Line (lineno t)))))
       else primary) s"

definition parse_pow :: "nat \<Rightarrow> expr parser \<Rightarrow> expr parser" where
  "parse_pow n primary s = binary n ''pow'' PowNode (parse_unary n primary) s"

definition parse_mod :: "nat \<Rightarrow> expr parser \<Rightarrow> expr parser" where
  "parse_mod n primary s = binary n ''mod'' Mod (parse_pow n primary) s"

definition parse_floordiv :: "nat \<Rightarrow> expr parser \<Rightarrow> expr parser" where
  "parse_floordiv n primary s = binary n ''floordiv'' FloorDiv (parse_mod n primary) s"

definition parse_div :: "nat \<Rightarrow> expr parser \<Rightarrow> expr parser" where
  "parse_div n primary s = binary n ''div'' Div (parse_floordiv n primary) s"

definition parse_mul :: "nat \<Rightarrow> expr parser \<Rightarrow> expr parser" where
  "parse_mul n primary s = binary n ''mul'' Mul (parse_div n primary) s"

primrec concat_loop :: "nat \<Rightarrow> expr parser \<Rightarrow> expr list \<Rightarrow> expr list parser" where
  "concat_loop 0 sub args s = Inl OutOfFuel"
| "concat_loop (Suc n) sub args s =
     cur (\<lambda>t. if type t = ''tilde''
              then seq stream_next (bnd sub (\<lambda>e. concat_loop n sub (args @ [e])))
              else ret args) s"

definition parse_concat :: "nat \<Rightarrow> expr parser \<Rightarrow> expr parser" where
  "parse_concat n primary s =
     cur (\<lambda>t.
       bnd (parse_mul n primary) (\<lambda>e.
       bnd (concat_loop n (parse_mul n primary) [e]) (\<lambda>args.
       if length args = 1 then ret (hd args)
       else ret (Concat args (Line (lineno t)))))) s"

definition parse_sub :: "nat \<Rightarrow> expr parser \<Rightarrow> expr parser" where
  "parse_sub n primary s = binary n ''sub'' Sub (parse_concat n primary) s"

definition parse_add :: "nat \<Rightarrow> expr parser \<Rightarrow> expr parser" where
  "parse_add n primary s = binary n ''add'' Add (parse_sub n primary) s"

subsection \<open>Comparisons\<close>

text \<open>The loop of \<^verbatim>\<open>parse_compare\<close> returns the operand list and the last line number.\<close>

primrec compare_loop ::
  "nat \<Rightarrow> expr parser \<Rightarrow> operand list \<Rightarrow> int \<Rightarrow> (operand list \<times> int) parser"
where
  "compare_loop 0 sub ops lno s = Inl OutOfFuel"
| "compare_loop (Suc n) sub ops lno s =
     cur (\<lambda>t.
       bnd stream_look (\<lambda>ahead.
       if type t \<in> set compare_operators
       then seq stream_next
            (bnd sub (\<lambda>e.
             cur (\<lambda>t'. compare_loop n sub (ops @ [Operand (type t) e]) (lineno t'))))
       else if type t = ''not'' \<and> type ahead = ''in''
       then seq stream_skip2
            (bnd sub (\<lambda>e.
             cur (\<lambda>t'. compare_loop n sub (ops @ [Operand ''notin'' e]) (lineno t'))))
       else ret (ops, lno))) s"

definition parse_compare :: "nat \<Rightarrow> expr parser \<Rightarrow> expr parser" where
  "parse_compare n primary s =
     cur (\<lambda>t.
       bnd (parse_add n primary) (\<lambda>e.
       bnd (compare_loop n (parse_add n primary) [] (lineno t)) (\<lambda>r.
       if fst r = [] then ret e
       else ret (Compare e (fst r) (Line (snd r)))))) s"

definition parse_and :: "nat \<Rightarrow> expr parser \<Rightarrow> expr parser" where
  "parse_and n primary s = binary n ''and'' And (parse_compare n primary) s"

definition parse_or :: "nat \<Rightarrow> expr parser \<Rightarrow> expr parser" where
  "parse_or n primary s = binary n ''or'' Or (parse_and n primary) s"

subsection \<open>Conditional expressions\<close>

text \<open>
  The loop of \<^verbatim>\<open>parse_condexpr\<close>; \<open>self_condexpr\<close> is the recursive call
  \<^verbatim>\<open>self.parse_condexpr()\<close> in its body.
\<close>

primrec condexpr_loop ::
  "nat \<Rightarrow> expr parser \<Rightarrow> expr parser \<Rightarrow> int \<Rightarrow> expr \<Rightarrow> expr parser"
where
  "condexpr_loop 0 por self_condexpr lno expr1 s = Inl OutOfFuel"
| "condexpr_loop (Suc n) por self_condexpr lno expr1 s =
     cur (\<lambda>t. if type t = ''if''
              then seq stream_next
                   (bnd por (\<lambda>expr2.
                    seq (expect ''else'')
                    (bnd self_condexpr (\<lambda>expr3.
                     cur (\<lambda>t'. condexpr_loop n por self_condexpr (lineno t')
                                 (CondExpr expr2 expr1 expr3 (Line lno)))))))
              else ret expr1) s"

primrec parse_condexpr :: "nat \<Rightarrow> expr parser \<Rightarrow> expr parser" where
  "parse_condexpr 0 primary s = Inl OutOfFuel"
| "parse_condexpr (Suc n) primary s =
     cur (\<lambda>t.
       bnd (parse_or n primary) (\<lambda>expr1.
       condexpr_loop n (parse_or n primary) (parse_condexpr n primary) (lineno t) expr1)) s"

definition parse_expression :: "nat \<Rightarrow> expr parser \<Rightarrow> bool \<Rightarrow> expr parser" where
  "parse_expression n primary no_condexpr s =
     (if no_condexpr then parse_or n primary s else parse_condexpr n primary s)"


subsection \<open>Call arguments, filters and tests\<close>

text \<open>\<^verbatim>\<open>if items: self.stream.expect('comma')\<close> and its like.\<close>

definition when_do :: "bool \<Rightarrow> 'a parser \<Rightarrow> unit parser" where
  "when_do c m s = (if c then seq m (ret ()) s else ret () s)"

text \<open>
  \<^verbatim>\<open>parse_call\<close> returns the tuple of its four argument lists when it is given no node,
  and a \<^verbatim>\<open>Call\<close> node otherwise.
\<close>

record call_args =
  args :: "expr list"
  kwargs :: "keyword list"
  dyn_args :: "expr option"
  dyn_kwargs :: "expr option"

datatype call_result = CallArgs call_args | CallNode expr

text \<open>The local function \<^verbatim>\<open>ensure\<close> of \<^verbatim>\<open>parse_call\<close>; \<open>token\<close> is the opening parenthesis.\<close>

definition ensure :: "env \<Rightarrow> token \<Rightarrow> bool \<Rightarrow> unit parser" where
  "ensure self token ok s =
     (if \<not> ok
      then raise (TemplateSyntaxError (Format ''invalid syntax for function call expression'' [])
                    (Line (lineno token)) (filename self)) s
      else ret () s)"

text \<open>One argument of the call: the body of the loop after the comma handling.\<close>

definition call_argument :: "env \<Rightarrow> token \<Rightarrow> expr parser \<Rightarrow> call_args \<Rightarrow> call_args parser" where
  "call_argument self token pe a s =
     cur (\<lambda>t.
       if type t = ''mul''
       then seq (ensure self token (dyn_args a = None \<and> dyn_kwargs a = None))
            (seq stream_next
            (bnd pe (\<lambda>e. ret (a\<lparr>dyn_args := Some e\<rparr>))))
       else if type t = ''pow''
       then seq (ensure self token (dyn_kwargs a = None))
            (seq stream_next
            (bnd pe (\<lambda>e. ret (a\<lparr>dyn_kwargs := Some e\<rparr>))))
       else seq (ensure self token (dyn_args a = None \<and> dyn_kwargs a = None))
            (bnd stream_look (\<lambda>ahead.
             if type t = ''name'' \<and> type ahead = ''assign''
             then seq stream_skip2
                  (bnd pe (\<lambda>v.
                   ret (a\<lparr>kwargs := kwargs a @ [Keyword (val t) v (node_lineno v)]\<rparr>)))
             else seq (ensure self token (kwargs a = []))
                  (bnd pe (\<lambda>e. ret (a\<lparr>args := args a @ [e]\<rparr>)))))) s"

primrec call_loop ::
  "env \<Rightarrow> nat \<Rightarrow> token \<Rightarrow> expr parser \<Rightarrow> call_args \<Rightarrow> bool \<Rightarrow> call_args parser"
where
  "call_loop self 0 token pe a require_comma s = Inl OutOfFuel"
| "call_loop self (Suc n) token pe a require_comma s =
     cur (\<lambda>t.
       if type t \<noteq> ''rparen''
       then seq (when_do require_comma (expect ''comma''))
            (cur (\<lambda>t'.
               if require_comma \<and> type t' = ''rparen'' then ret a
               else bnd (call_argument self token pe a) (\<lambda>a'.
                    call_loop self n token pe a' True)))
       else ret a) s"

definition parse_call :: "env \<Rightarrow> nat \<Rightarrow> expr parser \<Rightarrow> expr option \<Rightarrow> call_result parser" where
  "parse_call self n primary node s =
     bnd (expect ''lparen'') (\<lambda>token.
     bnd (call_loop self n token (parse_expression n primary False)
            \<lparr>args = [], kwargs = [], dyn_args = None, dyn_kwargs = None\<rparr> False) (\<lambda>a.
     seq (expect ''rparen'')
     (case node of
        None \<Rightarrow> ret (CallArgs a)
      | Some f \<Rightarrow> ret (CallNode (Call f (args a) (kwargs a) (dyn_args a) (dyn_kwargs a)
                                   (Line (lineno token))))))) s"

text \<open>
  \<^verbatim>\<open>args, kwargs, dyn_args, dyn_kwargs = self.parse_call(None)\<close>: unpacking anything but
  the tuple is a type error.
\<close>

definition parse_call_none :: "env \<Rightarrow> nat \<Rightarrow> expr parser \<Rightarrow> call_args parser" where
  "parse_call_none self n primary s =
     bnd (parse_call self n primary None) (\<lambda>r.
     case r of
       CallArgs a \<Rightarrow> ret a
     | CallNode e \<Rightarrow> raise (TypeError ''Call object is not iterable'')) s"

definition no_call_args :: call_args where
  "no_call_args = \<lparr>args = [], kwargs = [], dyn_args = None, dyn_kwargs = None\<rparr>"

text \<open>
  The loop of \<^verbatim>\<open>parse_filter\<close>. The assignment \<^verbatim>\<open>lineno = self.stream.current.type\<close> at the
  head of the method is never read and is left out.
\<close>

primrec filter_loop ::
  "env \<Rightarrow> nat \<Rightarrow> expr parser \<Rightarrow> expr option \<Rightarrow> bool \<Rightarrow> expr option parser"
where
  "filter_loop self 0 primary node start_inline s = Inl OutOfFuel"
| "filter_loop self (Suc n) primary node start_inline s =
     cur (\<lambda>t.
       if type t = ''pipe'' \<or> start_inline
       then seq (when_do (\<not> start_inline) stream_next)
            (bnd (expect ''name'') (\<lambda>token.
             bnd (cur (\<lambda>t'. if type t' = ''lparen'' then parse_call_none self n primary
                            else ret no_call_args)) (\<lambda>a.
             filter_loop self n primary
               (Some (Filter node (val token) (args a) (kwargs a) (dyn_args a) (dyn_kwargs a)
                        (Line (lineno token))))
               False)))
       else ret node) s"

definition parse_filter ::
  "env \<Rightarrow> nat \<Rightarrow> expr parser \<Rightarrow> expr option \<Rightarrow> bool \<Rightarrow> expr option parser"
where
  "parse_filter self n primary node start_inline s =
     filter_loop self n primary node start_inline s"

definition parse_test :: "env \<Rightarrow> nat \<Rightarrow> expr parser \<Rightarrow> expr \<Rightarrow> expr parser" where
  "parse_test self n primary node s =
     bnd (expect ''is'') (\<lambda>token.
     bnd (cur (\<lambda>t. if type t = ''not'' then seq stream_next (ret True) else ret False))
       (\<lambda>negated.
     bnd (expect ''name'') (\<lambda>name_token.
     bnd (cur (\<lambda>t.
            if type t = ''lparen'' then parse_call_none self n primary
            else if type t \<in> set [''name'', ''string'', ''integer'', ''float'', ''lparen'',
                                   ''lbracket'', ''lbrace'', ''regex'']
            then bnd (parse_expression n primary False) (\<lambda>e.
                 ret (no_call_args\<lparr>args := [e]\<rparr>))
            else ret no_call_args)) (\<lambda>a.
     if negated
     then ret (NotNode (Test node (val name_token) (args a) (kwargs a) (dyn_args a)
                          (dyn_kwargs a) (Line (lineno token)))
                 (Line (lineno token)))
     else ret (Test node (val name_token) (args a) (kwargs a) (dyn_args a) (dyn_kwargs a)
                 (Line (lineno token))))))) s"

subsection \<open>Subscripts and slices\<close>

text \<open>The second and third segment of a slice, after the first colon was consumed.\<close>

definition slice_rest :: "expr parser \<Rightarrow> int \<Rightarrow> expr option \<Rightarrow> expr parser" where
  "slice_rest pe lno start s =
     bnd (cur (\<lambda>t.
            if type t = ''colon'' then ret None
            else if type t \<notin> set [''rbracket'', ''comma''] then bnd pe (\<lambda>e. ret (Some e))
            else ret None)) (\<lambda>stop.
     bnd (cur (\<lambda>t.
            if type t = ''colon''
            then seq stream_next
                 (cur (\<lambda>t'.
                    if type t' \<notin> set [''rbracket'', ''comma''] then bnd pe (\<lambda>e. ret (Some e))
                    else ret None))
            else ret None)) (\<lambda>step.
     ret (Slice start stop step (Line lno)))) s"

definition parse_subscribed :: "nat \<Rightarrow> expr parser \<Rightarrow> expr parser" where
  "parse_subscribed n primary s =
     cur (\<lambda>t.
       if type t = ''colon''
       then seq stream_next (slice_rest (parse_expression n primary False) (lineno t) None)
       else bnd (parse_expression n primary False) (\<lambda>node.
            cur (\<lambda>t'.
              if type t' \<noteq> ''colon'' then ret node
              else seq stream_next
                   (slice_rest (parse_expression n primary False) (lineno t) (Some node))))) s"

primrec subscript_loop :: "nat \<Rightarrow> expr parser \<Rightarrow> expr list \<Rightarrow> expr list parser" where
  "subscript_loop 0 subscribed xs s = Inl OutOfFuel"
| "subscript_loop (Suc n) subscribed xs s =
     cur (\<lambda>t.
       if type t \<noteq> ''rbracket''
       then seq (when_do (xs \<noteq> []) (expect ''comma''))
            (bnd subscribed (\<lambda>e. subscript_loop n subscribed (xs @ [e])))
       else ret xs) s"

text \<open>
  \<open>subscript_argument\<close> is the branching of \<^verbatim>\<open>parse_subscript\<close> on the token it consumed,
  which computes \<^verbatim>\<open>arg\<close>. The name \<^verbatim>\<open>lineno\<close> in \<^verbatim>\<open>nodes.Tuple(args, lineno, self.filename)\<close>
  is bound neither in the method nor in the module, and the parser object has no
  attribute \<^verbatim>\<open>lineno\<close> for \<^verbatim>\<open>self.lineno\<close> in the last branch: evaluating the first is a
  \<^verbatim>\<open>NameError\<close>, the second an \<^verbatim>\<open>AttributeError\<close>.
\<close>

definition subscript_argument :: "env \<Rightarrow> nat \<Rightarrow> expr parser \<Rightarrow> token \<Rightarrow> expr parser" where
  "subscript_argument self n primary token s =
     (if type token = ''dot''
      then cur (\<lambda>attr_token.
             if type attr_token \<notin> set [''name'', ''integer'']
             then raise (TemplateSyntaxError (Format ''expected name or number'' [])
                           (Line (lineno attr_token)) (filename self))
             else seq stream_next
                  (ret (Const (val attr_token) (Line (lineno attr_token))))) s
      else if type token = ''lbracket''
      then bnd (subscript_loop n (parse_subscribed n primary) []) (\<lambda>xs.
           seq (expect ''rbracket'')
           (if length xs = 1 then ret (hd xs)
            else raise (NameError ''lineno''))) s
      else raise (AttributeError ''lineno'') s)"

definition parse_subscript :: "env \<Rightarrow> nat \<Rightarrow> expr parser \<Rightarrow> expr \<Rightarrow> expr parser" where
  "parse_subscript self n primary node s =
     bnd stream_next (\<lambda>token.
     bnd (subscript_argument self n primary token) (\<lambda>arg.
     ret (Subscript node arg ''load'' (Line (lineno token))))) s"

subsection \<open>Postfix operators\<close>

text \<open>
  \<^verbatim>\<open>parse_call\<close> is given the node, so it returns a \<^verbatim>\<open>Call\<close> node; \<^verbatim>\<open>parse_filter\<close> is
  entered on a pipe token, so its loop runs and it returns a \<^verbatim>\<open>Filter\<close> node. The other
  shapes of their results cannot occur here and are type errors in the model.
\<close>

primrec parse_postfix :: "env \<Rightarrow> nat \<Rightarrow> expr parser \<Rightarrow> expr \<Rightarrow> expr parser" where
  "parse_postfix self 0 primary node s = Inl OutOfFuel"
| "parse_postfix self (Suc n) primary node s =
     cur (\<lambda>t.
       if type t = ''dot'' \<or> type t = ''lbracket''
       then bnd (parse_subscript self n primary node) (parse_postfix self n primary)
       else if type t = ''lparen''
       then bnd (parse_call self n primary (Some node)) (\<lambda>r.
            case r of
              CallNode e \<Rightarrow> parse_postfix self n primary e
            | CallArgs a \<Rightarrow> raise (TypeError ''tuple is not a node''))
       else if type t = ''pipe''
       then bnd (parse_filter self n primary (Some node) False) (\<lambda>r.
            case r of
              Some e \<Rightarrow> parse_postfix self n primary e
            | None \<Rightarrow> raise (TypeError ''None is not a node''))
       else if type t = ''is''
       then bnd (parse_test self n primary node) (parse_postfix self n primary)
       else ret node) s"

subsection \<open>Tuples, lists and dicts\<close>

text \<open>
  The loop of \<^verbatim>\<open>parse_tuple\<close> returns \<^verbatim>\<open>args\<close>, \<^verbatim>\<open>is_tuple\<close> and \<^verbatim>\<open>lineno\<close>. After
  \<^verbatim>\<open>is_tuple = True\<close> the current token is still the comma just tested.
\<close>

primrec tuple_loop ::
  "nat \<Rightarrow> expr parser \<Rightarrow> expr list \<Rightarrow> bool \<Rightarrow> int \<Rightarrow> (expr list \<times> bool \<times> int) parser"
where
  "tuple_loop 0 parse xs is_tuple lno s = Inl OutOfFuel"
| "tuple_loop (Suc n) parse xs is_tuple lno s =
     seq (when_do (xs \<noteq> []) (expect ''comma''))
     (cur (\<lambda>t.
        if type t \<in> set tuple_edge_tokens then ret (xs, is_tuple, lno)
        else bnd parse (\<lambda>e.
             cur (\<lambda>t'.
               if type t' = ''comma'' then tuple_loop n parse (xs @ [e]) True (lineno t')
               else ret (xs @ [e], is_tuple, lno))))) s"

text \<open>The local function \<^verbatim>\<open>parse\<close> that \<^verbatim>\<open>parse_tuple\<close> picks for its elements.\<close>

definition tuple_parse :: "nat \<Rightarrow> expr parser \<Rightarrow> bool \<Rightarrow> bool \<Rightarrow> expr parser" where
  "tuple_parse n primary simplified no_condexpr s =
     (if simplified then primary s
      else if no_condexpr then parse_expression n primary True s
      else parse_expression n primary False s)"

definition parse_tuple ::
  "env \<Rightarrow> nat \<Rightarrow> expr parser \<Rightarrow> bool \<Rightarrow> bool \<Rightarrow> bool \<Rightarrow> expr parser"
where
  "parse_tuple self n primary enforce simplified no_condexpr s =
     cur (\<lambda>t.
       bnd (tuple_loop n (tuple_parse n primary simplified no_condexpr)
              [] False (lineno t)) (\<lambda>r.
       case r of (xs, is_tuple, lno) \<Rightarrow>
         if \<not> is_tuple \<and> xs \<noteq> []
         then (if enforce
               then raise (TemplateSyntaxError (Format ''tuple expected'' []) (Line lno)
                             (filename self))
               else ret (hd xs))
         else ret (Tuple xs ''load'' (Line lno)))) s"

primrec list_loop :: "nat \<Rightarrow> expr parser \<Rightarrow> expr list \<Rightarrow> expr list parser" where
  "list_loop 0 pe items s = Inl OutOfFuel"
| "list_loop (Suc n) pe items s =
     cur (\<lambda>t.
       if type t \<noteq> ''rbracket''
       then seq (when_do (items \<noteq> []) (expect ''comma''))
            (cur (\<lambda>t'.
               if type t' = ''rbracket'' then ret items
               else bnd pe (\<lambda>e. list_loop n pe (items @ [e]))))
       else ret items) s"

definition parse_list :: "nat \<Rightarrow> expr parser \<Rightarrow> expr parser" where
  "parse_list n primary s =
     bnd (expect ''lbracket'') (\<lambda>token.
     bnd (list_loop n (parse_expression n primary False) []) (\<lambda>items.
     seq (expect ''rbracket'')
     (ret (List items (Line (lineno token)))))) s"

primrec dict_loop :: "nat \<Rightarrow> expr parser \<Rightarrow> pair list \<Rightarrow> pair list parser" where
  "dict_loop 0 pe items s = Inl OutOfFuel"
| "dict_loop (Suc n) pe items s =
     cur (\<lambda>t.
       if type t \<noteq> ''rbrace''
       then seq (when_do (items \<noteq> []) (expect ''comma''))
            (cur (\<lambda>t'.
               if type t' = ''rbrace'' then ret items
               else bnd pe (\<lambda>key.
                    seq (expect ''colon'')
                    (bnd pe (\<lambda>v.
                     dict_loop n pe (items @ [PairNode key v (node_lineno key)]))))))
       else ret items) s"

definition parse_dict :: "nat \<Rightarrow> expr parser \<Rightarrow> expr parser" where
  "parse_dict n primary s =
     bnd (expect ''lbrace'') (\<lambda>token.
     bnd (dict_loop n (parse_expression n primary False) []) (\<lambda>items.
     seq (expect ''rbrace'')
     (ret (Dict items (Line (lineno token)))))) s"

subsection \<open>Primary expressions\<close>

primrec parse_primary :: "env \<Rightarrow> nat \<Rightarrow> bool \<Rightarrow> expr parser" where
  "parse_primary self 0 postfix s = Inl OutOfFuel"
| "parse_primary self (Suc n) postfix s =
     cur (\<lambda>token.
       bnd (if type token = ''name''
            then seq stream_next
                 (if val token \<in> set [PStr ''true'', PStr ''false'']
                  then ret (Const (PBool (val token = PStr ''true'')) (Line (lineno token)))
                  else if val token = PStr ''none''
                  then ret (Const PNone (Line (lineno token)))
                  else ret (Name (val token) ''load'' (Line (lineno token))))
            else if type token \<in> set [''integer'', ''float'', ''string'']
            then seq stream_next (ret (Const (val token) (Line (lineno token))))
            else if type token = ''lparen''
            then seq stream_next
                 (bnd (parse_tuple self n (parse_primary self n True) False False False)
                    (\<lambda>node.
                  seq (expect ''rparen'') (ret node)))
            else if type token = ''lbracket''
            then parse_list n (parse_primary self n True)
            else if type token = ''lbrace''
            then parse_dict n (parse_primary self n True)
            else raise (TemplateSyntaxError (Format (''unexpected token '%s'' @ [CHR 0x27]) [StrTok token])
                          (Line (lineno token)) (filename self))) (\<lambda>node.
       if postfix then parse_postfix self n (parse_primary self n True) node
       else ret node)) s"


section \<open>Statements\<close>

text \<open>
  The statement methods call each other in a cycle that always passes through
  \<^verbatim>\<open>parse_statement\<close>: each takes that method as the argument \<open>statement\<close>, and
  \<^verbatim>\<open>parse_statement\<close> closes the cycle by recursion on the bound. Expressions are parsed
  with the same bound.
\<close>

definition msg_cant_assign :: string where
  "msg_cant_assign = ''can't assign to '%s'' @ [CHR 0x27]"

text \<open>\<^verbatim>\<open>flush_data\<close> of \<^verbatim>\<open>subparse\<close>: the body after the buffered output was appended.\<close>

definition flush_data :: "stmt list \<Rightarrow> expr list \<Rightarrow> stmt list" where
  "flush_data body data_buffer =
     (if data_buffer \<noteq> [] then body @ [Output data_buffer (node_lineno (hd data_buffer))]
      else body)"

text \<open>\<^verbatim>\<open>end_tokens is not None and self.stream.current.test_many(end_tokens)\<close>.\<close>

definition at_end_token :: "string list option \<Rightarrow> token \<Rightarrow> bool" where
  "at_end_token end_tokens t =
     (case end_tokens of None \<Rightarrow> False | Some kinds \<Rightarrow> type t \<in> set kinds)"

primrec subparse_loop ::
  "env \<Rightarrow> nat \<Rightarrow> stmt parser \<Rightarrow> string list option \<Rightarrow> stmt list \<Rightarrow> expr list \<Rightarrow> stmt list parser"
where
  "subparse_loop self 0 statement end_tokens body data_buffer s = Inl OutOfFuel"
| "subparse_loop self (Suc n) statement end_tokens body data_buffer s =
     stream_nonzero (\<lambda>more.
      if more
      then cur (\<lambda>token.
             if type token = ''data''
             then seq stream_next
                  (subparse_loop self n statement end_tokens body
                     (if truthy (val token)
                      then data_buffer @ [Const (val token) (Line (lineno token))]
                      else data_buffer))
             else if type token = ''variable_begin''
             then seq stream_next
                  (bnd (parse_tuple self n (parse_primary self n True) False False False)
                     (\<lambda>e.
                   seq (expect ''variable_end'')
                   (subparse_loop self n statement end_tokens body (data_buffer @ [e]))))
             else if type token = ''block_begin''
             then seq stream_next
                  (cur (\<lambda>t.
                     if at_end_token end_tokens t then ret (flush_data body data_buffer)
                     else bnd statement (\<lambda>node.
                          seq (expect ''block_end'')
                          (subparse_loop self n statement end_tokens
                             (flush_data body data_buffer @ [node]) []))))
             else raise (AssertionError ''internal parsing error''))
      else ret (flush_data body data_buffer)) s"

definition subparse ::
  "env \<Rightarrow> nat \<Rightarrow> stmt parser \<Rightarrow> string list option \<Rightarrow> stmt list parser"
where
  "subparse self n statement end_tokens s =
     subparse_loop self n statement end_tokens [] [] s"

definition parse_statements ::
  "env \<Rightarrow> nat \<Rightarrow> stmt parser \<Rightarrow> string list \<Rightarrow> bool \<Rightarrow> stmt list parser"
where
  "parse_statements self n statement end_tokens drop_needle s =
     seq (cur (\<lambda>t. when_do (type t = ''colon'') stream_next))
     (seq (expect ''block_end'')
     (bnd (subparse self n statement (Some end_tokens)) (\<lambda>result.
      seq (when_do drop_needle stream_next)
      (ret result)))) s"

definition parse_assign :: "env \<Rightarrow> nat \<Rightarrow> expr \<Rightarrow> stmt parser" where
  "parse_assign self n target s =
     bnd (expect ''assign'') (\<lambda>token.
     if \<not> can_assign self target
     then raise (TemplateSyntaxError
                   (Format msg_cant_assign [Str (PStr (lower (class_name target)))])
                   (node_lineno target) (filename self))
     else bnd (parse_tuple self n (parse_primary self n True) False False False) (\<lambda>e.
          ret (Assign (set_ctx self ''store'' target) e (Line (lineno token))))) s"

definition parse_for :: "env \<Rightarrow> nat \<Rightarrow> stmt parser \<Rightarrow> stmt parser" where
  "parse_for self n statement s =
     bnd (expect ''for'') (\<lambda>token.
     bnd (parse_tuple self n (parse_primary self n True) False True False) (\<lambda>target.
     if \<not> can_assign self target
     then raise (TemplateSyntaxError
                   (Format msg_cant_assign [Str (PStr (lower (class_name target)))])
                   (node_lineno target) (filename self))
     else seq (expect ''in'')
          (bnd (parse_tuple self n (parse_primary self n True) False False True) (\<lambda>iter.
           bnd (cur (\<lambda>t.
                  if type t = ''if''
                  then seq stream_next
                       (bnd (parse_expression n (parse_primary self n True) False)
                          (\<lambda>e. ret (Some e)))
                  else ret None)) (\<lambda>test.
           bnd (parse_statements self n statement [''endfor'', ''else''] False) (\<lambda>body.
           bnd stream_next (\<lambda>needle.
           bnd (if type needle = ''endfor'' then ret []
                else parse_statements self n statement [''endfor''] True) (\<lambda>else_body.
           ret (For (set_ctx self ''store'' target) iter body else_body test
                  (Line (lineno token))))))))))) s"

text \<open>
  \<^verbatim>\<open>parse_if\<close> fills each \<^verbatim>\<open>If\<close> node after it was created and hangs the node of an
  \<^verbatim>\<open>elif\<close> into its predecessor before filling it; \<open>if_loop\<close> builds the same chain from
  the innermost node outwards. \<open>lno\<close> is the line number the node was created with.
\<close>

primrec if_loop :: "env \<Rightarrow> nat \<Rightarrow> stmt parser \<Rightarrow> int \<Rightarrow> stmt parser" where
  "if_loop self 0 statement lno s = Inl OutOfFuel"
| "if_loop self (Suc n) statement lno s =
     bnd (parse_tuple self n (parse_primary self n True) False False False) (\<lambda>test.
     bnd (parse_statements self n statement [''elif'', ''else'', ''endif''] False) (\<lambda>body.
     bnd stream_next (\<lambda>needle.
     if type needle = ''elif''
     then cur (\<lambda>t.
            bnd (if_loop self n statement (lineno t)) (\<lambda>new_node.
            ret (IfNode test body [new_node] (Line lno))))
     else if type needle = ''else''
     then bnd (parse_statements self n statement [''endif''] True) (\<lambda>else_body.
          ret (IfNode test body else_body (Line lno)))
     else ret (IfNode test body [] (Line lno))))) s"

definition parse_if :: "env \<Rightarrow> nat \<Rightarrow> stmt parser \<Rightarrow> stmt parser" where
  "parse_if self n statement s =
     bnd (expect ''if'') (\<lambda>token. if_loop self n statement (lineno token)) s"

definition parse_block :: "env \<Rightarrow> nat \<Rightarrow> stmt parser \<Rightarrow> stmt parser" where
  "parse_block self n statement s =
     bnd (expect ''block'') (\<lambda>token.
     bnd (expect ''name'') (\<lambda>name_token.
     bnd (parse_statements self n statement [''endblock''] True) (\<lambda>body.
     ret (Block (val name_token) body (Line (lineno token)))))) s"

definition parse_extends :: "env \<Rightarrow> nat \<Rightarrow> stmt parser" where
  "parse_extends self n s =
     bnd (expect ''extends'') (\<lambda>token.
     bnd (parse_expression n (parse_primary self n True) False) (\<lambda>template.
     ret (Extends template (Line (lineno token))))) s"

definition parse_include :: "env \<Rightarrow> nat \<Rightarrow> stmt parser" where
  "parse_include self n s =
     bnd (expect ''include'') (\<lambda>token.
     bnd (parse_expression n (parse_primary self n True) False) (\<lambda>template.
     ret (Include template (Line (lineno token))))) s"

definition parse_import :: "env \<Rightarrow> nat \<Rightarrow> stmt parser" where
  "parse_import self n s =
     bnd (expect ''import'') (\<lambda>token.
     bnd (parse_expression n (parse_primary self n True) False) (\<lambda>template.
     seq (expect_value ''name'' (PStr ''as''))
     (bnd (expect ''name'') (\<lambda>target_token.
      if \<not> can_assign self (Name (val target_token) ''store'' NoLine)
      then raise (TemplateSyntaxError
                    (Format ''can't assign imported template to %r'' [Repr (val target_token)])
                    (Line (lineno token)) (filename self))
      else ret (Import template (val target_token) (Line (lineno token))))))) s"

text \<open>
  The loop of \<^verbatim>\<open>parse_from\<close>. The module imports only \<^verbatim>\<open>TemplateSyntaxError\<close> from
  \<^verbatim>\<open>jinja2.exceptions\<close>, so the \<^verbatim>\<open>raise TemplateAssertionError(...)\<close> of the reserved-name
  branch fails with a \<^verbatim>\<open>NameError\<close> when the name is looked up. \<^verbatim>\<open>startswith\<close> is a
  method of strings only.
\<close>

primrec from_loop :: "env \<Rightarrow> nat \<Rightarrow> import_name list \<Rightarrow> import_name list parser" where
  "from_loop self 0 names s = Inl OutOfFuel"
| "from_loop self (Suc n) names s =
     seq (when_do (names \<noteq> []) (expect ''comma''))
     (cur (\<lambda>t.
        if type t = ''name''
        then (if \<not> can_assign self (Name (val t) ''store'' NoLine)
              then raise (TemplateSyntaxError
                            (Format ''can't import object named %r'' [Repr (val t)])
                            NoLine (filename self))
              else case val t of
                PStr nm \<Rightarrow>
                  if take 2 nm = ''__''
                  then raise (NameError ''TemplateAssertionError'')
                  else seq stream_next
                       (bnd (cur (\<lambda>t'.
                               if test_value t' ''name'' (PStr ''as'')
                               then seq stream_next
                                    (bnd (expect ''name'') (\<lambda>alias.
                                     if \<not> can_assign self (Name (val alias) ''store'' NoLine)
                                     then raise (TemplateSyntaxError
                                                   (Format ''can't name imported object %r.''
                                                      [Repr (val alias)])
                                                   (Line (lineno alias)) (filename self))
                                     else ret (names @ [Aliased (val t) (val alias)])))
                               else ret (names @ [Plain (val t)]))) (\<lambda>names'.
                        cur (\<lambda>t''.
                          if type t'' \<noteq> ''comma'' then ret names'
                          else from_loop self n names')))
              | _ \<Rightarrow> raise (AttributeError ''startswith''))
        else ret names)) s"

definition parse_from :: "env \<Rightarrow> nat \<Rightarrow> stmt parser" where
  "parse_from self n s =
     bnd (expect ''from'') (\<lambda>token.
     bnd (parse_expression n (parse_primary self n True) False) (\<lambda>template.
     seq (expect ''import'')
     (bnd (from_loop self n []) (\<lambda>names.
      seq (cur (\<lambda>t. when_do (type t = ''comma'') stream_next))
      (ret (FromImport template names (Line (lineno token)))))))) s"

text \<open>The loop of \<^verbatim>\<open>parse_signature\<close> returns \<^verbatim>\<open>args\<close> and \<^verbatim>\<open>defaults\<close>.\<close>

primrec signature_loop ::
  "env \<Rightarrow> nat \<Rightarrow> expr list \<Rightarrow> expr list \<Rightarrow> (expr list \<times> expr list) parser"
where
  "signature_loop self 0 xs defaults s = Inl OutOfFuel"
| "signature_loop self (Suc n) xs defaults s =
     cur (\<lambda>t.
       if type t \<noteq> ''rparen''
       then seq (when_do (xs \<noteq> []) (expect ''comma''))
            (bnd (expect ''name'') (\<lambda>token.
             if \<not> can_assign self (Name (val token) ''param'' (Line (lineno token)))
             then raise (TemplateSyntaxError (Format msg_cant_assign [Str (val token)])
                           (Line (lineno token)) (filename self))
             else bnd (cur (\<lambda>t'.
                         if type t' = ''assign''
                         then seq stream_next
                              (bnd (parse_expression n (parse_primary self n True) False)
                                 (\<lambda>d. ret (defaults @ [d])))
                         else ret defaults)) (\<lambda>defaults'.
                  signature_loop self n
                    (xs @ [Name (val token) ''param'' (Line (lineno token))]) defaults')))
       else ret (xs, defaults)) s"

definition parse_signature :: "env \<Rightarrow> nat \<Rightarrow> (expr list \<times> expr list) parser" where
  "parse_signature self n s =
     seq (expect ''lparen'')
     (bnd (signature_loop self n [] []) (\<lambda>sig.
      seq (expect ''rparen'')
      (ret sig))) s"

text \<open>\<^verbatim>\<open>isinstance(node.call, nodes.Call)\<close>.\<close>

fun is_call :: "expr \<Rightarrow> bool" where
  "is_call (Call f xs ks da dk l) = True"
| "is_call e = False"

definition parse_call_block :: "env \<Rightarrow> nat \<Rightarrow> stmt parser \<Rightarrow> stmt parser" where
  "parse_call_block self n statement s =
     bnd (expect ''call'') (\<lambda>token.
     bnd (cur (\<lambda>t. if type t = ''lparen'' then parse_signature self n else ret ([], [])))
       (\<lambda>sig.
     bnd (parse_expression n (parse_primary self n True) False) (\<lambda>call.
     if \<not> is_call call
     then raise (TemplateSyntaxError (Format ''expected call'' []) (Line (lineno token))
                   (filename self))
     else bnd (parse_statements self n statement [''endcall''] True) (\<lambda>body.
          ret (CallBlock (fst sig) (snd sig) call body (Line (lineno token))))))) s"

definition parse_filter_block :: "env \<Rightarrow> nat \<Rightarrow> stmt parser \<Rightarrow> stmt parser" where
  "parse_filter_block self n statement s =
     bnd (expect ''filter'') (\<lambda>token.
     bnd (parse_filter self n (parse_primary self n True) None True) (\<lambda>filter_node.
     bnd (parse_statements self n statement [''endfilter''] True) (\<lambda>body.
     ret (FilterBlock filter_node body (Line (lineno token)))))) s"

text \<open>
  In the error branch of \<^verbatim>\<open>parse_macro\<close> the message is formatted from \<^verbatim>\<open>node.target\<close>;
  a \<^verbatim>\<open>Macro\<close> node has the fields name, args, defaults and body, so reading the
  attribute fails.
\<close>

definition parse_macro :: "env \<Rightarrow> nat \<Rightarrow> stmt parser \<Rightarrow> stmt parser" where
  "parse_macro self n statement s =
     bnd (expect ''macro'') (\<lambda>token.
     bnd (expect ''name'') (\<lambda>name_token.
     if \<not> can_assign self (Name (val name_token) ''store'' NoLine)
     then raise (AttributeError ''target'')
     else bnd (parse_signature self n) (\<lambda>sig.
          bnd (parse_statements self n statement [''endmacro''] True) (\<lambda>body.
          ret (Macro (val name_token) (fst sig) (snd sig) body (Line (lineno token))))))) s"

primrec print_loop :: "nat \<Rightarrow> expr parser \<Rightarrow> expr list \<Rightarrow> expr list parser" where
  "print_loop 0 pe nodes s = Inl OutOfFuel"
| "print_loop (Suc n) pe nodes s =
     cur (\<lambda>t.
       if type t \<notin> set statement_end_tokens
       then seq (when_do (nodes \<noteq> []) (expect ''comma''))
            (bnd pe (\<lambda>e. print_loop n pe (nodes @ [e])))
       else ret nodes) s"

definition parse_print :: "env \<Rightarrow> nat \<Rightarrow> stmt parser" where
  "parse_print self n s =
     bnd (expect ''print'') (\<lambda>token.
     bnd (print_loop n (parse_expression n (parse_primary self n True) False) []) (\<lambda>nodes.
     ret (Output nodes (Line (lineno token))))) s"

text \<open>\<^verbatim>\<open>getattr(self, 'parse_' + token_type)()\<close> for a kind in \<^verbatim>\<open>_statement_keywords\<close>.\<close>

definition parse_keyword :: "env \<Rightarrow> nat \<Rightarrow> stmt parser \<Rightarrow> string \<Rightarrow> stmt parser" where
  "parse_keyword self n statement token_type s =
     (if token_type = ''for'' then parse_for self n statement s
      else if token_type = ''if'' then parse_if self n statement s
      else if token_type = ''block'' then parse_block self n statement s
      else if token_type = ''extends'' then parse_extends self n s
      else if token_type = ''print'' then parse_print self n s
      else if token_type = ''macro'' then parse_macro self n statement s
      else if token_type = ''include'' then parse_include self n s
      else if token_type = ''from'' then parse_from self n s
      else if token_type = ''import'' then parse_import self n s
      else raise (AttributeError (''parse_'' @ token_type)) s)"

text \<open>
  \<^verbatim>\<open>parse_statement\<close>. The variable \<^verbatim>\<open>lineno\<close> of the method is assigned
  \<^verbatim>\<open>self.stream.current\<close>, the token, and is passed on as the \<^verbatim>\<open>lineno\<close> of the
  \<^verbatim>\<open>ExprStmt\<close> node.
\<close>

primrec parse_statement :: "env \<Rightarrow> nat \<Rightarrow> stmt parser" where
  "parse_statement self 0 s = Inl OutOfFuel"
| "parse_statement self (Suc n) s =
     cur (\<lambda>token.
       if type token \<in> set statement_keywords
       then parse_keyword self n (parse_statement self n) (type token)
       else if type token = ''call''
       then parse_call_block self n (parse_statement self n)
       else if type token = ''filter''
       then parse_filter_block self n (parse_statement self n)
       else case (if type token = ''name'' then extensions self (val token) else None) of
              Some ext \<Rightarrow> ext
            | None \<Rightarrow>
                bnd (parse_tuple self n (parse_primary self n True) False False False) (\<lambda>e.
                cur (\<lambda>t.
                  if type t = ''assign'' then parse_assign self n e
                  else ret (ExprStmt e (TokLine token))))) s"

definition parse :: "env \<Rightarrow> nat \<Rightarrow> template parser" where
  "parse self n s =
     bnd (subparse self n (parse_statement self n) None) (\<lambda>body.
     ret (Template body (Line 1))) s"


section \<open>Concrete streams and node methods\<close>

definition tok :: "int \<Rightarrow> string \<Rightarrow> pyval \<Rightarrow> token" where
  "tok l k v = \<lparr>lineno = l, type = k, val = v\<rparr>"

text \<open>
  The stream over a token sequence, positioned on its first token; over the empty
  sequence it is at the end of input on line 1.
\<close>

definition stream_of :: "token list \<Rightarrow> stream" where
  "stream_of ts =
     (case ts of
        [] \<Rightarrow> \<lparr>current = tok 1 ''eof'' (PStr ''''), pending = [], name = None\<rparr>
      | t # r \<Rightarrow> \<lparr>current = t, pending = r, name = None\<rparr>)"

text \<open>
  Modelled from the spec: the capability check of sections 3 and 9 (the \<^verbatim>\<open>nodes\<close> module is
  not among the sources), as a function that matches on the node class and, for a tuple,
  asks all elements: names, subscripts and tuples of assignable elements are assignable,
  and nothing else is. The spec does not say which names the check refuses; here it
  refuses the three names that \<^verbatim>\<open>parse_primary\<close> reads as literals, so that the check of a
  name can fail at all.
\<close>

fun assignable :: "expr \<Rightarrow> bool" where
  "assignable (Name v c l) = (v \<notin> set [PStr ''true'', PStr ''false'', PStr ''none''])"
| "assignable (Subscript a b c l) = True"
| "assignable (Tuple xs c l) = (\<forall>x \<in> set xs. assignable x)"
| "assignable e = False"

text \<open>
  Modelled from the spec: setting the context tag of section 3 on a target. Names,
  subscripts and tuples carry the tag; the elements of a tuple target are targets too.
\<close>

fun with_ctx :: "string \<Rightarrow> expr \<Rightarrow> expr" where
  "with_ctx c (Name v c0 l) = Name v c l"
| "with_ctx c (Subscript a b c0 l) = Subscript a b c l"
| "with_ctx c (Tuple xs c0 l) = Tuple (map (with_ctx c) xs) c l"
| "with_ctx c e = e"

text \<open>
  A parser object without a file name and without extensions, over these two methods. It
  is the object on which the general statements below are instantiated; the statements
  themselves hold for every parser object.
\<close>

definition plain_env :: env where
  "plain_env = \<lparr>filename = None, extensions = (\<lambda>v. None),
                 can_assign = assignable, set_ctx = with_ctx\<rparr>"


text \<open>The error that \<^verbatim>\<open>ensure\<close> raises, for a call whose opening parenthesis is \<open>token\<close>.\<close>

definition call_syntax_error :: "env \<Rightarrow> token \<Rightarrow> error" where
  "call_syntax_error self token =
     TemplateSyntaxError (Format ''invalid syntax for function call expression'' [])
       (Line (lineno token)) (filename self)"

text \<open>
  The errors that stand for a failure inside the parser itself: reading an attribute
  that does not exist, and taking a value for a node or a tuple that it is not. A parser
  is clean when no run of it ends in one of them.
\<close>

fun internal_error :: "error \<Rightarrow> bool" where
  "internal_error (AttributeError a) = True"
| "internal_error (TypeError m) = True"
| "internal_error e = False"

definition clean :: "'a parser \<Rightarrow> bool" where
  "clean m = (\<forall>s e. m s = Inl e \<longrightarrow> \<not> internal_error e)"

text \<open>Whatever a parser returns satisfies \<open>P\<close>.\<close>

definition post :: "('a \<Rightarrow> bool) \<Rightarrow> 'a parser \<Rightarrow> bool" where
  "post P m = (\<forall>s a s'. m s = Inr (a, s') \<longrightarrow> P a)"

text \<open>
  The assignment targets of a statement tree: the target of every \<^verbatim>\<open>Assign\<close> and \<^verbatim>\<open>For\<close>
  node satisfies \<open>ok\<close>, and every parameter of a \<^verbatim>\<open>Macro\<close> or \<^verbatim>\<open>CallBlock\<close> node is a
  name in \<^verbatim>\<open>param\<close> context that satisfies \<open>ok\<close>; \<open>ok\<close> stands for the capability check.
\<close>

fun is_param :: "expr \<Rightarrow> bool" where
  "is_param (Name v c l) = (c = ''param'')"
| "is_param e = False"

fun targets_ok :: "(expr \<Rightarrow> bool) \<Rightarrow> stmt \<Rightarrow> bool" where
  "targets_ok ok (Assign target e l) = ok target"
| "targets_ok ok (For target iter body else_body test l) =
     (ok target \<and> (\<forall>x \<in> set body. targets_ok ok x) \<and> (\<forall>x \<in> set else_body. targets_ok ok x))"
| "targets_ok ok (IfNode test body else_body l) =
     ((\<forall>x \<in> set body. targets_ok ok x) \<and> (\<forall>x \<in> set else_body. targets_ok ok x))"
| "targets_ok ok (Block nm body l) = (\<forall>x \<in> set body. targets_ok ok x)"
| "targets_ok ok (Macro nm params defaults body l) =
     ((\<forall>p \<in> set params. is_param p \<and> ok p) \<and> (\<forall>x \<in> set body. targets_ok ok x))"
| "targets_ok ok (CallBlock params defaults call body l) =
     ((\<forall>p \<in> set params. is_param p \<and> ok p) \<and> (\<forall>x \<in> set body. targets_ok ok x))"
| "targets_ok ok (FilterBlock f body l) = (\<forall>x \<in> set body. targets_ok ok x)"
| "targets_ok ok (Output xs l) = True"
| "targets_ok ok (Extends e l) = True"
| "targets_ok ok (Include e l) = True"
| "targets_ok ok (Import e v l) = True"
| "targets_ok ok (FromImport e names l) = True"
| "targets_ok ok (ExprStmt e l) = True"

section \<open>Chains of operands and arguments on a stream\<close>

text \<open>
  The vocabulary in which the results of the loops are stated for every stream. A stream
  continues an operand with a chain of one operator when, as often as the current token
  is that operator, the next-tighter level \<open>sub\<close> parses an operand behind it; the chain is
  the list of these operands, each with the stream it leaves, and it ends on the first
  token that is not the operator.
\<close>

fun operator_chain :: "string \<Rightarrow> expr parser \<Rightarrow> stream \<Rightarrow> (expr \<times> stream) list \<Rightarrow> bool" where
  "operator_chain kind sub s [] = (type (current s) \<noteq> kind)"
| "operator_chain kind sub s ((e, s') # rest) =
     (type (current s) = kind \<and> sub (advance s) = Inr (e, s') \<and> operator_chain kind sub s' rest)"

text \<open>
  The chain associated to the left: the node of the operands so far is the left operand
  of the next node. \<open>lno\<close> is the line of the token on which the left operand began for
  the first node, and of the token behind the previous right operand for the later ones.
\<close>

fun left_nested ::
  "(expr \<Rightarrow> expr \<Rightarrow> lineval \<Rightarrow> expr) \<Rightarrow> int \<Rightarrow> expr \<Rightarrow> (expr \<times> stream) list \<Rightarrow> expr"
where
  "left_nested mk lno left [] = left"
| "left_nested mk lno left ((e, s') # rest) =
     left_nested mk (lineno (current s')) (mk left e (Line lno)) rest"

text \<open>
  The comparison operator at the head of a stream, with the stream behind it: one of the
  seven operator tokens, or the two tokens \<^verbatim>\<open>not in\<close>, which count as the operator
  \<^verbatim>\<open>notin\<close>.
\<close>

definition comparison_at :: "stream \<Rightarrow> (string \<times> stream) option" where
  "comparison_at s =
     (if type (current s) \<in> set [''eq'', ''ne'', ''lt'', ''lteq'', ''gt'', ''gteq'', ''in'']
      then Some (type (current s), advance s)
      else if type (current s) = ''not'' \<and> type (peek s) = ''in''
      then Some (''notin'', advance (advance s))
      else None)"

text \<open>
  A chain of comparisons: as often as a comparison operator is at the head of the
  stream, \<open>sub\<close> parses an operand behind it. The chain lists operator, operand and the
  stream the operand leaves, and ends where no comparison operator is at the head.
\<close>

fun comparison_chain :: "expr parser \<Rightarrow> stream \<Rightarrow> (string \<times> expr \<times> stream) list \<Rightarrow> bool" where
  "comparison_chain sub s [] = (comparison_at s = None)"
| "comparison_chain sub s ((operator, e, s') # rest) =
     (case comparison_at s of
        None \<Rightarrow> False
      | Some (found, s1) \<Rightarrow>
          found = operator \<and> sub s1 = Inr (e, s') \<and> comparison_chain sub s' rest)"

text \<open>The operand pairs of a chain of comparisons, in the order of the chain.\<close>

fun operand_pairs :: "(string \<times> expr \<times> stream) list \<Rightarrow> operand list" where
  "operand_pairs [] = []"
| "operand_pairs ((operator, e, s') # rest) = Operand operator e # operand_pairs rest"

text \<open>
  The four kinds of argument of a call, and the kind of the argument at the head of a
  stream: \<^verbatim>\<open>*expr\<close>, \<^verbatim>\<open>**expr\<close>, \<^verbatim>\<open>name=expr\<close>, and everything else.
\<close>

datatype argument_kind = DynArgs | DynKwargs | KeywordArgument | Positional

definition argument_kind_at :: "stream \<Rightarrow> argument_kind" where
  "argument_kind_at s =
     (if type (current s) = ''mul'' then DynArgs
      else if type (current s) = ''pow'' then DynKwargs
      else if type (current s) = ''name'' \<and> type (peek s) = ''assign'' then KeywordArgument
      else Positional)"

text \<open>
  The ordering rule of call arguments, as a rule on kinds: an argument is out of order
  behind the arguments \<open>seen\<close> when it is a positional or keyword argument behind a marker,
  a second marker of its kind, or a positional argument behind a keyword argument.
\<close>

definition out_of_order :: "argument_kind list \<Rightarrow> argument_kind \<Rightarrow> bool" where
  "out_of_order seen k =
     (((DynArgs \<in> set seen \<or> DynKwargs \<in> set seen) \<and> (k = Positional \<or> k = KeywordArgument)) \<or>
      (DynArgs \<in> set seen \<and> k = DynArgs) \<or>
      (DynKwargs \<in> set seen \<and> k = DynKwargs) \<or>
      (KeywordArgument \<in> set seen \<and> k = Positional))"

text \<open>
  Arguments that the loop of \<^verbatim>\<open>parse_call\<close> has taken in: beginning with the collected
  arguments \<open>a\<close> on the stream \<open>s\<close>, each step is an argument that \<open>call_argument\<close> accepts,
  with the arguments collected after it and the stream it leaves, on which a comma
  follows and no closing parenthesis behind the comma; the next argument begins behind
  that comma. \<open>argument_starts\<close> lists the streams on which the arguments began.
\<close>

fun argument_chain ::
  "env \<Rightarrow> token \<Rightarrow> expr parser \<Rightarrow> call_args \<Rightarrow> stream \<Rightarrow> (call_args \<times> stream) list \<Rightarrow> bool"
where
  "argument_chain self token pe a s [] = True"
| "argument_chain self token pe a s ((a', s') # rest) =
     (call_argument self token pe a s = Inr (a', s') \<and>
      type (current s') = ''comma'' \<and> type (current (advance s')) \<noteq> ''rparen'' \<and>
      argument_chain self token pe a' (advance s') rest)"

fun argument_starts :: "stream \<Rightarrow> (call_args \<times> stream) list \<Rightarrow> stream list" where
  "argument_starts s [] = []"
| "argument_starts s ((a', s') # rest) = s # argument_starts (advance s') rest"

text \<open>
  The collected arguments and the stream on which the next argument begins, after the
  arguments of a chain.
\<close>

fun after_arguments ::
  "call_args \<Rightarrow> stream \<Rightarrow> (call_args \<times> stream) list \<Rightarrow> call_args \<times> stream"
where
  "after_arguments a s [] = (a, s)"
| "after_arguments a s ((a', s') # rest) = after_arguments a' (advance s') rest"

section \<open>Evaluating the parser on a concrete stream\<close>

text \<open>
  The simplifier runs a parser on a concrete stream by unfolding the definitions. These
  rules make it evaluate the stream first and leave the parsers alone until they are
  applied to a stream.
\<close>

lemma bnd_stream_cong: "s = s' \<Longrightarrow> bnd m f s = bnd m f s'"
  by simp

lemma seq_stream_cong: "s = s' \<Longrightarrow> seq m k s = seq m k s'"
  by simp

lemma cur_stream_cong: "s = s' \<Longrightarrow> cur f s = cur f s'"
  by simp

lemma when_do_stream_cong: "s = s' \<Longrightarrow> when_do c m s = when_do c m s'"
  by simp

lemma stream_nonzero_stream_cong: "s = s' \<Longrightarrow> stream_nonzero f s = stream_nonzero f s'"
  by simp

lemmas stream_congs = bnd_stream_cong seq_stream_cong cur_stream_cong when_do_stream_cong
  stream_nonzero_stream_cong

lemmas stream_defs =
  bnd_def seq_def cur_def ret_def raise_def when_do_def stream_nonzero_def
  stream_next_def stream_look_def peek_def stream_skip2_def expect_def expect_value_def
  test_value_def has_more_def advance_def eof_token_def tok_def stream_of_def

lemmas expr_defs =
  binary_def parse_pow_def parse_mod_def parse_floordiv_def parse_div_def parse_mul_def
  parse_concat_def parse_sub_def parse_add_def parse_compare_def parse_and_def parse_or_def
  parse_expression_def parse_call_def parse_call_none_def call_argument_def ensure_def
  parse_filter_def parse_test_def parse_subscribed_def slice_rest_def subscript_argument_def parse_subscript_def
  tuple_parse_def parse_tuple_def parse_list_def parse_dict_def no_call_args_def
  compare_operators_def tuple_edge_tokens_def statement_end_tokens_def

lemmas stmt_defs =
  flush_data_def at_end_token_def subparse_def parse_statements_def parse_assign_def
  parse_for_def parse_if_def parse_block_def parse_extends_def parse_include_def
  parse_import_def parse_from_def parse_signature_def parse_call_block_def
  parse_filter_block_def parse_macro_def parse_print_def parse_keyword_def parse_def
  statement_keywords_def msg_cant_assign_def

section \<open>Operator precedence and associativity\<close>

text \<open>
  The step of the loop shared by the binary levels: on its operator token the loop parses
  the right operand at the next-tighter level and goes on with the node of the operands
  so far as the new left operand.
\<close>

lemma binary_loop_step:
  assumes "type (current s) = kind" and "sub (advance s) = Inr (right, s')"
  shows "binary_loop (Suc n) kind mk sub lno left s =
         binary_loop n kind mk sub (lineno (current s')) (mk left right (Line lno)) s'"
  using assms by (simp add: stream_defs)

lemma binary_loop_exit:
  assumes "type (current s) \<noteq> kind"
  shows "binary_loop (Suc n) kind mk sub lno left s = Inr (left, s)"
  using assms by (simp add: stream_defs)

lemma parse_pow_example:
  "parse_expression (4 + k) (parse_primary self (4 + k) True) False
     (stream_of [tok 1 ''integer'' (PInt 2), tok 1 ''pow'' (PStr ''**''),
                 tok 1 ''integer'' (PInt 3), tok 1 ''pow'' (PStr ''**''),
                 tok 1 ''integer'' (PInt 2)])
   = Inr (PowNode (PowNode (Const (PInt 2) (Line 1)) (Const (PInt 3) (Line 1)) (Line 1))
              (Const (PInt 2) (Line 1)) (Line 1),
          stream_of [])"
  by (simp add: stream_defs expr_defs eval_nat_numeral cong: stream_congs)

lemma parse_add_mul_example:
  "parse_expression (4 + k) (parse_primary self (4 + k) True) False
     (stream_of [tok 1 ''integer'' (PInt 2), tok 1 ''add'' (PStr ''+''),
                 tok 1 ''integer'' (PInt 3), tok 1 ''mul'' (PStr ''*''),
                 tok 1 ''integer'' (PInt 4)])
   = Inr (Add (Const (PInt 2) (Line 1))
              (Mul (Const (PInt 3) (Line 1)) (Const (PInt 4) (Line 1)) (Line 1)) (Line 1),
          stream_of [])"
  by (simp add: stream_defs expr_defs eval_nat_numeral cong: stream_congs)

text \<open>
  C5. The power level is the shared loop over the unary level, which on each power
  operator makes the node of the operands so far the left operand of the next: with any
  bound of at least 4, \<^verbatim>\<open>2 ** 3 ** 2\<close> parses to \<^verbatim>\<open>Pow(Pow(2, 3), 2)\<close>, and \<^verbatim>\<open>2 + 3 * 4\<close>
  parses to \<^verbatim>\<open>Add(2, Mul(3, 4))\<close>, the multiplication being the right operand of the
  addition.
\<close>

theorem pow_left_assoc_mul_binds_tighter:
  "(type (current s) = ''pow'' \<and> parse_unary n primary (advance s) = Inr (right, s') \<longrightarrow>
    binary_loop (Suc n) ''pow'' PowNode (parse_unary n primary) lno left s =
    binary_loop n ''pow'' PowNode (parse_unary n primary) (lineno (current s'))
      (PowNode left right (Line lno)) s') \<and>
   parse_expression (4 + k) (parse_primary self (4 + k) True) False
     (stream_of [tok 1 ''integer'' (PInt 2), tok 1 ''pow'' (PStr ''**''),
                 tok 1 ''integer'' (PInt 3), tok 1 ''pow'' (PStr ''**''),
                 tok 1 ''integer'' (PInt 2)])
   = Inr (PowNode (PowNode (Const (PInt 2) (Line 1)) (Const (PInt 3) (Line 1)) (Line 1))
              (Const (PInt 2) (Line 1)) (Line 1),
          stream_of []) \<and>
   parse_expression (4 + k) (parse_primary self (4 + k) True) False
     (stream_of [tok 1 ''integer'' (PInt 2), tok 1 ''add'' (PStr ''+''),
                 tok 1 ''integer'' (PInt 3), tok 1 ''mul'' (PStr ''*''),
                 tok 1 ''integer'' (PInt 4)])
   = Inr (Add (Const (PInt 2) (Line 1))
              (Mul (Const (PInt 3) (Line 1)) (Const (PInt 4) (Line 1)) (Line 1)) (Line 1),
          stream_of [])"
  using parse_pow_example [of k self] parse_add_mul_example [of k self]
    binary_loop_step [of s "''pow''" "parse_unary n primary" right s' n PowNode lno left]
  by blast

lemma pow_loop_exit_example:
  "binary_loop (Suc 0) ''pow'' PowNode (parse_unary (Suc 0) (parse_primary plain_env 2 True)) 1
     (PowNode (Const (PInt 2) (Line 1)) (Const (PInt 3) (Line 1)) (Line 1)) (stream_of [])
   = Inr (PowNode (Const (PInt 2) (Line 1)) (Const (PInt 3) (Line 1)) (Line 1), stream_of [])"
  by (simp add: stream_defs)

theorem pow_left_assoc_mul_binds_tighter_witness:
  "binary_loop (Suc (Suc 0)) ''pow'' PowNode
     (parse_unary (Suc 0) (parse_primary plain_env 2 True)) 1
     (Const (PInt 2) (Line 1))
     (stream_of [tok 1 ''pow'' (PStr ''**''), tok 1 ''integer'' (PInt 3)])
   = Inr (PowNode (Const (PInt 2) (Line 1)) (Const (PInt 3) (Line 1)) (Line 1), stream_of [])"
proof -
  let ?pow = "stream_of [tok 1 ''pow'' (PStr ''**''), tok 1 ''integer'' (PInt 3)]"
  have operator: "type (current ?pow) = ''pow''"
    by (simp add: stream_defs)
  have operand: "parse_unary (Suc 0) (parse_primary plain_env 2 True) (advance ?pow)
                 = Inr (Const (PInt 3) (Line 1), stream_of [])"
    by (simp add: stream_defs expr_defs eval_nat_numeral cong: stream_congs)
  have line: "lineno (current (stream_of [])) = 1"
    by (simp add: stream_defs)
  from operator operand
    pow_left_assoc_mul_binds_tighter [where s = ?pow and n = "Suc 0"
      and primary = "parse_primary plain_env 2 True" and right = "Const (PInt 3) (Line 1)"
      and s' = "stream_of []" and lno = 1 and left = "Const (PInt 2) (Line 1)"]
  have "binary_loop (Suc (Suc 0)) ''pow'' PowNode
          (parse_unary (Suc 0) (parse_primary plain_env 2 True)) 1
          (Const (PInt 2) (Line 1)) ?pow =
        binary_loop (Suc 0) ''pow'' PowNode
          (parse_unary (Suc 0) (parse_primary plain_env 2 True))
          (lineno (current (stream_of [])))
          (PowNode (Const (PInt 2) (Line 1)) (Const (PInt 3) (Line 1)) (Line 1)) (stream_of [])"
    by blast
  with pow_loop_exit_example show ?thesis
    unfolding line by simp
qed

section \<open>Chained comparisons\<close>

lemma compare_loop_exit:
  assumes "type (current s) \<notin> set compare_operators"
    and "\<not> (type (current s) = ''not'' \<and> type (peek s) = ''in'')"
  shows "compare_loop (Suc n) sub ops lno s = Inr ((ops, lno), s)"
  using assms by (auto simp add: bnd_def seq_def cur_def ret_def stream_look_def)

lemma compare_no_ops:
  assumes "parse_add (Suc n) primary s = Inr (e, s')"
    and "type (current s') \<notin> set compare_operators"
    and "\<not> (type (current s') = ''not'' \<and> type (peek s') = ''in'')"
  shows "parse_compare (Suc n) primary s = Inr (e, s')"
  using assms(1) compare_loop_exit [OF assms(2,3)]
  by (simp add: parse_compare_def bnd_def cur_def ret_def)

lemma compare_loop_grows:
  "compare_loop n sub ops lno s = Inr ((ops', l), s') \<Longrightarrow>
   (ops' = ops \<and> l = lno \<and> s' = s) \<or> length ops < length ops'"
proof (induction n arbitrary: ops lno s)
  case 0
  then show ?case by simp
next
  case (Suc n)
  then show ?case
    by (fastforce simp: bnd_def seq_def cur_def ret_def stream_look_def stream_next_def stream_skip2_def
        split: if_splits sum.splits prod.splits)
qed

lemma parse_compare_shape:
  assumes "parse_compare n primary s = Inr (r, s')"
  shows "(\<exists>e ops l. r = Compare e ops l \<and> ops \<noteq> [] \<and> (\<exists>s1. parse_add n primary s = Inr (e, s1)))
         \<or> parse_add n primary s = Inr (r, s')"
proof -
  from assms obtain e s1 ops l where
    e: "parse_add n primary s = Inr (e, s1)" and
    loop: "compare_loop n (parse_add n primary) [] (lineno (current s)) s1 = Inr ((ops, l), s')" and
    r: "r = (if ops = [] then e else Compare e ops (Line l))"
    by (auto simp: parse_compare_def bnd_def cur_def ret_def split: sum.splits prod.splits if_splits)
  show ?thesis
  proof (cases "ops = []")
    case True
    with compare_loop_grows [OF loop] have "s' = s1" by simp
    with True e r show ?thesis by simp
  next
    case False
    with e r show ?thesis by auto
  qed
qed

lemma compare_chain_example:
  "parse_expression (4 + k) (parse_primary self (4 + k) True) False
     (stream_of [tok 1 ''name'' (PStr ''a''), tok 1 ''lt'' (PStr ''<''),
                 tok 1 ''name'' (PStr ''b''), tok 1 ''lteq'' (PStr ''<=''),
                 tok 1 ''name'' (PStr ''c'')])
   = Inr (Compare (Name (PStr ''a'') ''load'' (Line 1))
            [Operand ''lt'' (Name (PStr ''b'') ''load'' (Line 1)),
             Operand ''lteq'' (Name (PStr ''c'') ''load'' (Line 1))]
            (Line 1),
          stream_of [])"
  by (simp add: stream_defs expr_defs eval_nat_numeral cong: stream_congs)

text \<open>
  C3. \<^verbatim>\<open>a < b <= c\<close> parses to one \<^verbatim>\<open>Compare\<close> node over \<^verbatim>\<open>a\<close> with the operand list
  \<^verbatim>\<open>[(lt, b), (lteq, c)]\<close>. When no comparison operator follows the additive expression,
  \<^verbatim>\<open>parse_compare\<close> returns that expression as it is; and whatever it returns is either
  a \<^verbatim>\<open>Compare\<close> node with a non-empty operand list over the additive expression, or the
  additive expression itself.
\<close>

theorem compare_chain_single_node:
  "parse_expression (4 + k) (parse_primary self (4 + k) True) False
     (stream_of [tok 1 ''name'' (PStr ''a''), tok 1 ''lt'' (PStr ''<''),
                 tok 1 ''name'' (PStr ''b''), tok 1 ''lteq'' (PStr ''<=''),
                 tok 1 ''name'' (PStr ''c'')])
   = Inr (Compare (Name (PStr ''a'') ''load'' (Line 1))
            [Operand ''lt'' (Name (PStr ''b'') ''load'' (Line 1)),
             Operand ''lteq'' (Name (PStr ''c'') ''load'' (Line 1))]
            (Line 1),
          stream_of []) \<and>
   (parse_add (Suc n) primary s = Inr (e, s') \<and>
    type (current s') \<notin> set compare_operators \<and>
    \<not> (type (current s') = ''not'' \<and> type (peek s') = ''in'') \<longrightarrow>
    parse_compare (Suc n) primary s = Inr (e, s')) \<and>
   (parse_compare n primary s = Inr (r, s') \<longrightarrow>
    (\<exists>e ops l. r = Compare e ops l \<and> ops \<noteq> [] \<and>
                (\<exists>s1. parse_add n primary s = Inr (e, s1))) \<or>
    parse_add n primary s = Inr (r, s'))"
  using compare_chain_example [of k self] compare_no_ops [of n primary s e s']
    parse_compare_shape [of n primary s r s']
  by blast

lemma parse_add_name_example:
  "parse_add (Suc 2) (parse_primary plain_env 3 True) (stream_of [tok 1 ''name'' (PStr ''a'')])
   = Inr (Name (PStr ''a'') ''load'' (Line 1), stream_of [])"
  by (simp add: stream_defs expr_defs eval_nat_numeral cong: stream_congs)

theorem compare_chain_single_node_witness:
  "parse_compare (Suc 2) (parse_primary plain_env 3 True) (stream_of [tok 1 ''name'' (PStr ''a'')])
   = Inr (Name (PStr ''a'') ''load'' (Line 1), stream_of [])"
proof -
  have "type (current (stream_of [])) \<notin> set compare_operators \<and>
    \<not> (type (current (stream_of [])) = ''not'' \<and> type (peek (stream_of [])) = ''in'')"
    by (simp add: stream_defs compare_operators_def)
  with parse_add_name_example
  show ?thesis
    by (intro compare_chain_single_node [THEN conjunct2, THEN conjunct1, THEN mp]) simp
qed



section \<open>Tuples and parenthesized expressions\<close>

lemma tuple_at_terminator:
  assumes "type (current s) \<in> set tuple_edge_tokens"
  shows "parse_tuple self (Suc n) primary enforce simplified no_condexpr s =
         Inr (Tuple [] ''load'' (Line (lineno (current s))), s)"
  using assms by (simp add: parse_tuple_def bnd_def seq_def cur_def ret_def when_do_def)

lemma tuple_lone_element:
  assumes "type (current s) \<notin> set tuple_edge_tokens"
    and "tuple_parse (Suc n) primary simplified no_condexpr s = Inr (e, s')"
    and "type (current s') \<noteq> ''comma''"
  shows "parse_tuple self (Suc n) primary False simplified no_condexpr s = Inr (e, s')"
  using assms by (simp add: parse_tuple_def bnd_def seq_def cur_def ret_def when_do_def)

lemma tuple_trailing_comma:
  assumes "type (current s) \<notin> set tuple_edge_tokens"
    and "tuple_parse (Suc (Suc n)) primary simplified no_condexpr s = Inr (e, s')"
    and "type (current s') = ''comma''"
    and "type (current (advance s')) \<in> set tuple_edge_tokens"
  shows "parse_tuple self (Suc (Suc n)) primary enforce simplified no_condexpr s =
         Inr (Tuple [e] ''load'' (Line (lineno (current s'))), advance s')"
  using assms
  by (simp add: parse_tuple_def bnd_def seq_def cur_def ret_def when_do_def expect_def stream_next_def)

lemma tuple_loop_seen_comma:
  "tuple_loop n p xs True lno s = Inr ((ys, is_tuple, l), s') \<Longrightarrow>
   is_tuple \<and> (\<exists>more. ys = xs @ more)"
proof (induction n arbitrary: xs lno s)
  case 0
  then show ?case by simp
next
  case (Suc n)
  then show ?case
    by (fastforce simp: bnd_def seq_def cur_def ret_def when_do_def
        split: if_splits sum.splits prod.splits)
qed

lemma tuple_after_comma:
  assumes "type (current s) \<notin> set tuple_edge_tokens"
    and "tuple_parse n primary simplified no_condexpr s = Inr (e, s1)"
    and "type (current s1) = ''comma''"
    and "parse_tuple self n primary enforce simplified no_condexpr s = Inr (r, s')"
  shows "\<exists>more l. r = Tuple (e # more) ''load'' l"
proof (cases n)
  case 0
  with assms(4) show ?thesis
    by (simp add: parse_tuple_def bnd_def cur_def)
next
  case (Suc m)
  with assms obtain ys is_tuple l where
    loop: "tuple_loop m (tuple_parse n primary simplified no_condexpr) [e] True
             (lineno (current s1)) s1 = Inr ((ys, is_tuple, l), s')"
    and r: "r = (if \<not> is_tuple \<and> ys \<noteq> [] then hd ys else Tuple ys ''load'' (Line l))"
    by (auto simp: parse_tuple_def bnd_def seq_def cur_def ret_def raise_def when_do_def
        split: if_splits sum.splits prod.splits)
  from tuple_loop_seen_comma [OF loop] r show ?thesis by auto
qed


lemma paren_name_example:
  "parse_primary self (4 + k) True
     (stream_of [tok 1 ''lparen'' (PStr ''(''), tok 1 ''name'' (PStr ''a''),
                 tok 1 ''rparen'' (PStr '')'')])
   = Inr (Name (PStr ''a'') ''load'' (Line 1), stream_of [])"
  by (simp add: stream_defs expr_defs eval_nat_numeral cong: stream_congs)

lemma paren_one_tuple_example:
  "parse_primary self (4 + k) True
     (stream_of [tok 1 ''lparen'' (PStr ''(''), tok 1 ''name'' (PStr ''a''),
                 tok 1 ''comma'' (PStr '',''), tok 1 ''rparen'' (PStr '')'')])
   = Inr (Tuple [Name (PStr ''a'') ''load'' (Line 1)] ''load'' (Line 1), stream_of [])"
  by (simp add: stream_defs expr_defs eval_nat_numeral cong: stream_congs)

lemma paren_two_tuple_example:
  "parse_primary self (4 + k) True
     (stream_of [tok 1 ''lparen'' (PStr ''(''), tok 1 ''name'' (PStr ''a''),
                 tok 1 ''comma'' (PStr '',''), tok 1 ''name'' (PStr ''b''),
                 tok 1 ''rparen'' (PStr '')'')])
   = Inr (Tuple [Name (PStr ''a'') ''load'' (Line 1), Name (PStr ''b'') ''load'' (Line 1)]
            ''load'' (Line 1), stream_of [])"
  by (simp add: stream_defs expr_defs eval_nat_numeral cong: stream_congs)

lemma paren_empty_example:
  "parse_primary self (4 + k) True
     (stream_of [tok 1 ''lparen'' (PStr ''(''), tok 1 ''rparen'' (PStr '')'')])
   = Inr (Tuple [] ''load'' (Line 1), stream_of [])"
  by (simp add: stream_defs expr_defs eval_nat_numeral cong: stream_congs)

text \<open>
  C2. In parentheses, \<^verbatim>\<open>(a)\<close> parses to the bare name, \<^verbatim>\<open>(a,)\<close> to a tuple of one element,
  \<^verbatim>\<open>(a, b)\<close> to a tuple of two and \<^verbatim>\<open>()\<close> to the empty tuple. For \<^verbatim>\<open>parse_tuple\<close> at large:
  on a tuple-terminating token it returns the empty tuple without consuming anything; a
  first element that no comma follows is returned as it is; a first element that a comma
  and then a terminator follow gives a tuple of one element; and whenever a comma follows
  the first element, whatever is returned is a tuple that starts with that element.
\<close>

theorem tuple_by_comma:
  "parse_primary self (4 + k) True
     (stream_of [tok 1 ''lparen'' (PStr ''(''), tok 1 ''name'' (PStr ''a''),
                 tok 1 ''rparen'' (PStr '')'')])
   = Inr (Name (PStr ''a'') ''load'' (Line 1), stream_of []) \<and>
   parse_primary self (4 + k) True
     (stream_of [tok 1 ''lparen'' (PStr ''(''), tok 1 ''name'' (PStr ''a''),
                 tok 1 ''comma'' (PStr '',''), tok 1 ''rparen'' (PStr '')'')])
   = Inr (Tuple [Name (PStr ''a'') ''load'' (Line 1)] ''load'' (Line 1), stream_of []) \<and>
   parse_primary self (4 + k) True
     (stream_of [tok 1 ''lparen'' (PStr ''(''), tok 1 ''name'' (PStr ''a''),
                 tok 1 ''comma'' (PStr '',''), tok 1 ''name'' (PStr ''b''),
                 tok 1 ''rparen'' (PStr '')'')])
   = Inr (Tuple [Name (PStr ''a'') ''load'' (Line 1), Name (PStr ''b'') ''load'' (Line 1)]
            ''load'' (Line 1), stream_of []) \<and>
   parse_primary self (4 + k) True
     (stream_of [tok 1 ''lparen'' (PStr ''(''), tok 1 ''rparen'' (PStr '')'')])
   = Inr (Tuple [] ''load'' (Line 1), stream_of []) \<and>
   (type (current s) \<in> set tuple_edge_tokens \<longrightarrow>
    parse_tuple self (Suc n) primary enforce simplified no_condexpr s =
    Inr (Tuple [] ''load'' (Line (lineno (current s))), s)) \<and>
   (type (current s) \<notin> set tuple_edge_tokens \<and>
    tuple_parse (Suc n) primary simplified no_condexpr s = Inr (e, s1) \<and>
    type (current s1) \<noteq> ''comma'' \<longrightarrow>
    parse_tuple self (Suc n) primary False simplified no_condexpr s = Inr (e, s1)) \<and>
   (type (current s) \<notin> set tuple_edge_tokens \<and>
    tuple_parse (Suc (Suc n)) primary simplified no_condexpr s = Inr (e, s1) \<and>
    type (current s1) = ''comma'' \<and>
    type (current (advance s1)) \<in> set tuple_edge_tokens \<longrightarrow>
    parse_tuple self (Suc (Suc n)) primary enforce simplified no_condexpr s =
    Inr (Tuple [e] ''load'' (Line (lineno (current s1))), advance s1)) \<and>
   (type (current s) \<notin> set tuple_edge_tokens \<and>
    tuple_parse n primary simplified no_condexpr s = Inr (e, s1) \<and>
    type (current s1) = ''comma'' \<and>
    parse_tuple self n primary enforce simplified no_condexpr s = Inr (r, s') \<longrightarrow>
    (\<exists>more l. r = Tuple (e # more) ''load'' l))"
  using paren_name_example [of self k] paren_one_tuple_example [of self k]
    paren_two_tuple_example [of self k] paren_empty_example [of self k]
    tuple_at_terminator [of s self n primary enforce simplified no_condexpr]
    tuple_lone_element [of s n primary simplified no_condexpr e s1 self]
    tuple_trailing_comma [of s n primary simplified no_condexpr e s1 self enforce]
    tuple_after_comma [of s n primary simplified no_condexpr e s1 self enforce r s']
  by blast

lemma tuple_parse_name_example:
  "tuple_parse (Suc (Suc 2)) (parse_primary plain_env 4 True) False False
     (stream_of [tok 1 ''name'' (PStr ''a''), tok 2 ''comma'' (PStr '',''),
                 tok 3 ''rparen'' (PStr '')'')])
   = Inr (Name (PStr ''a'') ''load'' (Line 1),
          stream_of [tok 2 ''comma'' (PStr '',''), tok 3 ''rparen'' (PStr '')'')])"
  by (simp add: stream_defs expr_defs eval_nat_numeral cong: stream_congs)

lemma tuple_parse_lone_example:
  "tuple_parse (Suc 3) (parse_primary plain_env 4 True) False False
     (stream_of [tok 1 ''name'' (PStr ''a''), tok 3 ''rparen'' (PStr '')'')])
   = Inr (Name (PStr ''a'') ''load'' (Line 1), stream_of [tok 3 ''rparen'' (PStr '')'')])"
  by (simp add: stream_defs expr_defs eval_nat_numeral cong: stream_congs)

theorem tuple_by_comma_witness:
  "parse_tuple plain_env (Suc 0) (parse_primary plain_env 1 True) False False False
     (stream_of [tok 3 ''rparen'' (PStr '')'')])
   = Inr (Tuple [] ''load'' (Line 3), stream_of [tok 3 ''rparen'' (PStr '')'')]) \<and>
   parse_tuple plain_env (Suc (Suc 2)) (parse_primary plain_env 4 True) False False False
     (stream_of [tok 1 ''name'' (PStr ''a''), tok 2 ''comma'' (PStr '',''),
                 tok 3 ''rparen'' (PStr '')'')])
   = Inr (Tuple [Name (PStr ''a'') ''load'' (Line 1)] ''load'' (Line 2),
          stream_of [tok 3 ''rparen'' (PStr '')'')]) \<and>
   parse_tuple plain_env (Suc 3) (parse_primary plain_env 4 True) False False False
     (stream_of [tok 1 ''name'' (PStr ''a''), tok 3 ''rparen'' (PStr '')'')])
   = Inr (Name (PStr ''a'') ''load'' (Line 1), stream_of [tok 3 ''rparen'' (PStr '')'')]) \<and>
   (\<exists>more l. Tuple [Name (PStr ''a'') ''load'' (Line 1)] ''load'' (Line 2) =
              Tuple (Name (PStr ''a'') ''load'' (Line 1) # more) ''load'' l)"
proof -
  let ?lone = "stream_of [tok 1 ''name'' (PStr ''a''), tok 3 ''rparen'' (PStr '')'')]"
  let ?edge = "stream_of [tok 3 ''rparen'' (PStr '')'')]"
  let ?start = "stream_of [tok 1 ''name'' (PStr ''a''), tok 2 ''comma'' (PStr '',''),
                       tok 3 ''rparen'' (PStr '')'')]"
  let ?rest = "stream_of [tok 2 ''comma'' (PStr '',''), tok 3 ''rparen'' (PStr '')'')]"
  have edge: "type (current ?edge) \<in> set tuple_edge_tokens"
    by (simp add: stream_defs tuple_edge_tokens_def)
  have start: "type (current ?start) \<notin> set tuple_edge_tokens"
    by (simp add: stream_defs tuple_edge_tokens_def statement_end_tokens_def)
  have comma: "type (current ?rest) = ''comma''"
    by (simp add: stream_defs)
  have after: "advance ?rest = ?edge"
    by (simp add: stream_defs)
  have one: "parse_tuple plain_env (Suc 0) (parse_primary plain_env 1 True) False False False ?edge
             = Inr (Tuple [] ''load'' (Line (lineno (current ?edge))), ?edge)"
    using tuple_by_comma [where s = ?edge and n = 0 and self = plain_env
        and primary = "parse_primary plain_env 1 True" and enforce = False
        and simplified = False and no_condexpr = False] edge
    by blast
  have two: "parse_tuple plain_env (Suc (Suc 2)) (parse_primary plain_env 4 True) False False False ?start
             = Inr (Tuple [Name (PStr ''a'') ''load'' (Line 1)] ''load''
                      (Line (lineno (current ?rest))), advance ?rest)"
    using tuple_by_comma [where s = ?start and n = 2 and self = plain_env
        and primary = "parse_primary plain_env 4 True" and enforce = False
        and simplified = False and no_condexpr = False
        and e = "Name (PStr ''a'') ''load'' (Line 1)" and ?s1.0 = ?rest]
      start tuple_parse_name_example comma edge [folded after]
    by blast
  have lone_start: "type (current ?lone) \<notin> set tuple_edge_tokens"
    by (simp add: stream_defs tuple_edge_tokens_def statement_end_tokens_def)
  have no_comma: "type (current ?edge) \<noteq> ''comma''"
    by (simp add: stream_defs)
  have three: "parse_tuple plain_env (Suc 3) (parse_primary plain_env 4 True) False False False
                 ?lone = Inr (Name (PStr ''a'') ''load'' (Line 1), ?edge)"
    using tuple_by_comma [where s = ?lone and n = 3 and self = plain_env
        and primary = "parse_primary plain_env 4 True"
        and simplified = False and no_condexpr = False
        and e = "Name (PStr ''a'') ''load'' (Line 1)" and ?s1.0 = ?edge]
      lone_start tuple_parse_lone_example no_comma
    by blast
  have four: "\<exists>more l. Tuple [Name (PStr ''a'') ''load'' (Line 1)] ''load''
                           (Line (lineno (current ?rest))) =
                         Tuple (Name (PStr ''a'') ''load'' (Line 1) # more) ''load'' l"
    using tuple_by_comma [where s = ?start and n = "Suc (Suc 2)" and self = plain_env
        and primary = "parse_primary plain_env 4 True" and enforce = False
        and simplified = False and no_condexpr = False
        and e = "Name (PStr ''a'') ''load'' (Line 1)" and ?s1.0 = ?rest
        and r = "Tuple [Name (PStr ''a'') ''load'' (Line 1)] ''load''
                   (Line (lineno (current ?rest)))" and s' = "advance ?rest"]
      start tuple_parse_name_example comma two
    by blast
  from one two three four after show ?thesis
    by (simp add: stream_defs)
qed



section \<open>The order of call arguments\<close>

lemma argument_after_marker:
  assumes "dyn_args a \<noteq> None \<or> dyn_kwargs a \<noteq> None"
    and "type (current s) \<noteq> ''pow''"
  shows "call_argument self token pe a s = Inl (call_syntax_error self token)"
  using assms
  by (auto simp: call_argument_def call_syntax_error_def ensure_def seq_def cur_def raise_def)

lemma second_kwargs_marker:
  assumes "dyn_kwargs a \<noteq> None" and "type (current s) = ''pow''"
  shows "call_argument self token pe a s = Inl (call_syntax_error self token)"
  using assms
  by (auto simp: call_argument_def call_syntax_error_def ensure_def seq_def cur_def raise_def)

lemma positional_after_keyword:
  assumes "kwargs a \<noteq> []"
    and "type (current s) \<noteq> ''mul''" and "type (current s) \<noteq> ''pow''"
    and "\<not> (type (current s) = ''name'' \<and> type (peek s) = ''assign'')"
  shows "call_argument self token pe a s = Inl (call_syntax_error self token)"
  using assms
  by (auto simp: call_argument_def call_syntax_error_def ensure_def seq_def bnd_def cur_def
      raise_def ret_def stream_look_def)

lemma call_loop_next_argument:
  assumes "type (current s) = ''comma''" and "type (current (advance s)) \<noteq> ''rparen''"
    and "call_argument self token pe a (advance s) = Inl e"
  shows "call_loop self (Suc n) token pe a True s = Inl e"
  using assms
  by (simp add: seq_def bnd_def cur_def ret_def when_do_def expect_def stream_next_def)

lemma call_loop_trailing_comma:
  assumes "type (current s) = ''comma''" and "type (current (advance s)) = ''rparen''"
  shows "call_loop self (Suc n) token pe a True s = Inr (a, advance s)"
  using assms
  by (simp add: seq_def bnd_def cur_def ret_def when_do_def expect_def stream_next_def)

lemma call_mixed_example:
  "parse_primary self (7 + k) True
     (stream_of [tok 1 ''name'' (PStr ''f''), tok 2 ''lparen'' (PStr ''(''),
                 tok 3 ''integer'' (PInt 1), tok 3 ''comma'' (PStr '',''),
                 tok 3 ''integer'' (PInt 2), tok 3 ''comma'' (PStr '',''),
                 tok 3 ''name'' (PStr ''a''), tok 3 ''assign'' (PStr ''=''),
                 tok 3 ''integer'' (PInt 3), tok 3 ''comma'' (PStr '',''),
                 tok 3 ''mul'' (PStr ''*''), tok 3 ''name'' (PStr ''rest''),
                 tok 4 ''rparen'' (PStr '')'')])
   = Inr (Call (Name (PStr ''f'') ''load'' (Line 1))
            [Const (PInt 1) (Line 3), Const (PInt 2) (Line 3)]
            [Keyword (PStr ''a'') (Const (PInt 3) (Line 3)) (Line 3)]
            (Some (Name (PStr ''rest'') ''load'' (Line 3))) None (Line 2),
          \<lparr>current = tok 4 ''eof'' (PStr ''''), pending = [], name = None\<rparr>)"
  by (simp add: stream_defs expr_defs eval_nat_numeral cong: stream_congs)

lemma call_positional_after_keyword_example:
  "parse_primary self (5 + k) True
     (stream_of [tok 1 ''name'' (PStr ''f''), tok 2 ''lparen'' (PStr ''(''),
                 tok 3 ''name'' (PStr ''a''), tok 3 ''assign'' (PStr ''=''),
                 tok 3 ''integer'' (PInt 1), tok 3 ''comma'' (PStr '',''),
                 tok 3 ''integer'' (PInt 2), tok 4 ''rparen'' (PStr '')'')])
   = Inl (call_syntax_error self (tok 2 ''lparen'' (PStr ''('')))"
  by (simp add: stream_defs expr_defs call_syntax_error_def eval_nat_numeral cong: stream_congs)

lemma call_two_markers_example:
  "parse_primary self (5 + k) True
     (stream_of [tok 1 ''name'' (PStr ''f''), tok 2 ''lparen'' (PStr ''(''),
                 tok 3 ''mul'' (PStr ''*''), tok 3 ''name'' (PStr ''a''),
                 tok 3 ''comma'' (PStr '',''),
                 tok 3 ''mul'' (PStr ''*''), tok 3 ''name'' (PStr ''b''),
                 tok 4 ''rparen'' (PStr '')'')])
   = Inl (call_syntax_error self (tok 2 ''lparen'' (PStr ''('')))"
  by (simp add: stream_defs expr_defs call_syntax_error_def eval_nat_numeral cong: stream_congs)

lemma call_trailing_comma_example:
  "parse_primary self (5 + k) True
     (stream_of [tok 1 ''name'' (PStr ''f''), tok 2 ''lparen'' (PStr ''(''),
                 tok 3 ''integer'' (PInt 1), tok 3 ''comma'' (PStr '',''),
                 tok 4 ''rparen'' (PStr '')'')])
   = Inr (Call (Name (PStr ''f'') ''load'' (Line 1)) [Const (PInt 1) (Line 3)] [] None None
            (Line 2),
          \<lparr>current = tok 4 ''eof'' (PStr ''''), pending = [], name = None\<rparr>)"
  by (simp add: stream_defs expr_defs eval_nat_numeral cong: stream_congs)

text \<open>
  C4. \<^verbatim>\<open>f(1, 2, a=3, *rest)\<close> parses to a \<^verbatim>\<open>Call\<close> node; \<^verbatim>\<open>f(a=1, 2)\<close> and \<^verbatim>\<open>f(*a, *b)\<close> fail
  with the syntax error of \<^verbatim>\<open>ensure\<close> on the line of the opening parenthesis; \<^verbatim>\<open>f(1,)\<close>
  parses. In the loop of \<^verbatim>\<open>parse_call\<close> at large, after an argument and on a comma that
  no closing parenthesis follows: once \<^verbatim>\<open>dyn_args\<close> or \<^verbatim>\<open>dyn_kwargs\<close> is set, any next
  argument but a \<^verbatim>\<open>**\<close> marker fails with that error, and so does a \<^verbatim>\<open>**\<close> marker once
  \<^verbatim>\<open>dyn_kwargs\<close> is set; once a keyword argument was collected, a next argument that is
  neither a marker nor a keyword argument fails with it. A comma that the closing
  parenthesis follows ends the loop.
\<close>

theorem call_argument_order:
  "parse_primary self (7 + k) True
     (stream_of [tok 1 ''name'' (PStr ''f''), tok 2 ''lparen'' (PStr ''(''),
                 tok 3 ''integer'' (PInt 1), tok 3 ''comma'' (PStr '',''),
                 tok 3 ''integer'' (PInt 2), tok 3 ''comma'' (PStr '',''),
                 tok 3 ''name'' (PStr ''a''), tok 3 ''assign'' (PStr ''=''),
                 tok 3 ''integer'' (PInt 3), tok 3 ''comma'' (PStr '',''),
                 tok 3 ''mul'' (PStr ''*''), tok 3 ''name'' (PStr ''rest''),
                 tok 4 ''rparen'' (PStr '')'')])
   = Inr (Call (Name (PStr ''f'') ''load'' (Line 1))
            [Const (PInt 1) (Line 3), Const (PInt 2) (Line 3)]
            [Keyword (PStr ''a'') (Const (PInt 3) (Line 3)) (Line 3)]
            (Some (Name (PStr ''rest'') ''load'' (Line 3))) None (Line 2),
          \<lparr>current = tok 4 ''eof'' (PStr []), pending = [], name = None\<rparr>) \<and>
   parse_primary self (7 + k) True
     (stream_of [tok 1 ''name'' (PStr ''f''), tok 2 ''lparen'' (PStr ''(''),
                 tok 3 ''name'' (PStr ''a''), tok 3 ''assign'' (PStr ''=''),
                 tok 3 ''integer'' (PInt 1), tok 3 ''comma'' (PStr '',''),
                 tok 3 ''integer'' (PInt 2), tok 4 ''rparen'' (PStr '')'')])
   = Inl (call_syntax_error self (tok 2 ''lparen'' (PStr ''(''))) \<and>
   parse_primary self (7 + k) True
     (stream_of [tok 1 ''name'' (PStr ''f''), tok 2 ''lparen'' (PStr ''(''),
                 tok 3 ''mul'' (PStr ''*''), tok 3 ''name'' (PStr ''a''),
                 tok 3 ''comma'' (PStr '',''),
                 tok 3 ''mul'' (PStr ''*''), tok 3 ''name'' (PStr ''b''),
                 tok 4 ''rparen'' (PStr '')'')])
   = Inl (call_syntax_error self (tok 2 ''lparen'' (PStr ''(''))) \<and>
   parse_primary self (7 + k) True
     (stream_of [tok 1 ''name'' (PStr ''f''), tok 2 ''lparen'' (PStr ''(''),
                 tok 3 ''integer'' (PInt 1), tok 3 ''comma'' (PStr '',''),
                 tok 4 ''rparen'' (PStr '')'')])
   = Inr (Call (Name (PStr ''f'') ''load'' (Line 1)) [Const (PInt 1) (Line 3)] [] None None
            (Line 2),
          \<lparr>current = tok 4 ''eof'' (PStr []), pending = [], name = None\<rparr>) \<and>
   (type (current s) = ''comma'' \<and> type (current (advance s)) \<noteq> ''rparen'' \<and>
    (dyn_args a \<noteq> None \<or> dyn_kwargs a \<noteq> None) \<and>
    type (current (advance s)) \<noteq> ''pow'' \<longrightarrow>
    call_loop self (Suc n) token pe a True s = Inl (call_syntax_error self token)) \<and>
   (type (current s) = ''comma'' \<and> type (current (advance s)) = ''pow'' \<and>
    dyn_kwargs a \<noteq> None \<longrightarrow>
    call_loop self (Suc n) token pe a True s = Inl (call_syntax_error self token)) \<and>
   (type (current s) = ''comma'' \<and> type (current (advance s)) \<noteq> ''rparen'' \<and>
    kwargs a \<noteq> [] \<and>
    type (current (advance s)) \<noteq> ''mul'' \<and> type (current (advance s)) \<noteq> ''pow'' \<and>
    \<not> (type (current (advance s)) = ''name'' \<and> type (peek (advance s)) = ''assign'') \<longrightarrow>
    call_loop self (Suc n) token pe a True s = Inl (call_syntax_error self token)) \<and>
   (type (current s) = ''comma'' \<and> type (current (advance s)) = ''rparen'' \<longrightarrow>
    call_loop self (Suc n) token pe a True s = Inr (a, advance s))"
proof -
  have marker: "call_loop self (Suc n) token pe a True s = Inl (call_syntax_error self token)"
    if "type (current s) = ''comma''" "type (current (advance s)) \<noteq> ''rparen''"
      "dyn_args a \<noteq> None \<or> dyn_kwargs a \<noteq> None" "type (current (advance s)) \<noteq> ''pow''"
    using that by (intro call_loop_next_argument argument_after_marker)
  have kwargs_marker:
    "call_loop self (Suc n) token pe a True s = Inl (call_syntax_error self token)"
    if "type (current s) = ''comma''" "type (current (advance s)) = ''pow''"
      "dyn_kwargs a \<noteq> None"
    using that by (intro call_loop_next_argument second_kwargs_marker) simp_all
  have keyword:
    "call_loop self (Suc n) token pe a True s = Inl (call_syntax_error self token)"
    if "type (current s) = ''comma''" "type (current (advance s)) \<noteq> ''rparen''"
      "kwargs a \<noteq> []"
      "type (current (advance s)) \<noteq> ''mul''" "type (current (advance s)) \<noteq> ''pow''"
      "\<not> (type (current (advance s)) = ''name'' \<and> type (peek (advance s)) = ''assign'')"
    using that by (intro call_loop_next_argument positional_after_keyword)
  have examples:
    "parse_primary self (7 + k) True
     (stream_of [tok 1 ''name'' (PStr ''f''), tok 2 ''lparen'' (PStr ''(''),
                 tok 3 ''name'' (PStr ''a''), tok 3 ''assign'' (PStr ''=''),
                 tok 3 ''integer'' (PInt 1), tok 3 ''comma'' (PStr '',''),
                 tok 3 ''integer'' (PInt 2), tok 4 ''rparen'' (PStr '')'')])
     = Inl (call_syntax_error self (tok 2 ''lparen'' (PStr ''('')))"
    "parse_primary self (7 + k) True
     (stream_of [tok 1 ''name'' (PStr ''f''), tok 2 ''lparen'' (PStr ''(''),
                 tok 3 ''mul'' (PStr ''*''), tok 3 ''name'' (PStr ''a''),
                 tok 3 ''comma'' (PStr '',''),
                 tok 3 ''mul'' (PStr ''*''), tok 3 ''name'' (PStr ''b''),
                 tok 4 ''rparen'' (PStr '')'')])
     = Inl (call_syntax_error self (tok 2 ''lparen'' (PStr ''('')))"
    "parse_primary self (7 + k) True
     (stream_of [tok 1 ''name'' (PStr ''f''), tok 2 ''lparen'' (PStr ''(''),
                 tok 3 ''integer'' (PInt 1), tok 3 ''comma'' (PStr '',''),
                 tok 4 ''rparen'' (PStr '')'')])
     = Inr (Call (Name (PStr ''f'') ''load'' (Line 1)) [Const (PInt 1) (Line 3)] [] None None
            (Line 2),
          \<lparr>current = tok 4 ''eof'' (PStr []), pending = [], name = None\<rparr>)"
    using call_positional_after_keyword_example [of self "2 + k"]
      call_two_markers_example [of self "2 + k"]
      call_trailing_comma_example [of self "2 + k"]
    by (simp_all add: add.assoc [symmetric])
  show ?thesis
    using call_mixed_example [of self k] examples marker kwargs_marker keyword
      call_loop_trailing_comma [of s self n token pe a]
    by blast
qed

theorem call_argument_order_witness:
  "call_loop plain_env (Suc 0) (tok 2 ''lparen'' (PStr ''(''))
     (parse_expression 0 (parse_primary plain_env 0 True) False)
     \<lparr>args = [], kwargs = [], dyn_args = Some (Const (PInt 1) (Line 3)), dyn_kwargs = None\<rparr>
     True
     (stream_of [tok 3 ''comma'' (PStr '',''), tok 3 ''integer'' (PInt 2)])
   = Inl (call_syntax_error plain_env (tok 2 ''lparen'' (PStr ''(''))) \<and>
   call_loop plain_env (Suc 0) (tok 2 ''lparen'' (PStr ''(''))
     (parse_expression 0 (parse_primary plain_env 0 True) False)
     \<lparr>args = [], kwargs = [], dyn_args = None, dyn_kwargs = Some (Const (PInt 1) (Line 3))\<rparr>
     True
     (stream_of [tok 3 ''comma'' (PStr '',''), tok 3 ''pow'' (PStr ''**'')])
   = Inl (call_syntax_error plain_env (tok 2 ''lparen'' (PStr ''(''))) \<and>
   call_loop plain_env (Suc 0) (tok 2 ''lparen'' (PStr ''(''))
     (parse_expression 0 (parse_primary plain_env 0 True) False)
     \<lparr>args = [], kwargs = [Keyword (PStr ''a'') (Const (PInt 1) (Line 3)) (Line 3)],
      dyn_args = None, dyn_kwargs = None\<rparr>
     True
     (stream_of [tok 3 ''comma'' (PStr '',''), tok 3 ''integer'' (PInt 2)])
   = Inl (call_syntax_error plain_env (tok 2 ''lparen'' (PStr ''(''))) \<and>
   call_loop plain_env (Suc 0) (tok 2 ''lparen'' (PStr ''(''))
     (parse_expression 0 (parse_primary plain_env 0 True) False)
     \<lparr>args = [Const (PInt 1) (Line 3)], kwargs = [], dyn_args = None, dyn_kwargs = None\<rparr>
     True
     (stream_of [tok 3 ''comma'' (PStr '',''), tok 4 ''rparen'' (PStr '')'')])
   = Inr (\<lparr>args = [Const (PInt 1) (Line 3)], kwargs = [], dyn_args = None, dyn_kwargs = None\<rparr>,
          stream_of [tok 4 ''rparen'' (PStr '')'')])"
proof -
  let ?pe = "parse_expression 0 (parse_primary plain_env 0 True) False"
  let ?lparen = "tok 2 ''lparen'' (PStr ''('')"
  let ?int = "stream_of [tok 3 ''comma'' (PStr '',''), tok 3 ''integer'' (PInt 2)]"
  let ?pow = "stream_of [tok 3 ''comma'' (PStr '',''), tok 3 ''pow'' (PStr ''**'')]"
  let ?close = "stream_of [tok 3 ''comma'' (PStr '',''), tok 4 ''rparen'' (PStr '')'')]"
  let ?star = "\<lparr>args = [], kwargs = [], dyn_args = Some (Const (PInt 1) (Line 3)),
                dyn_kwargs = None\<rparr>"
  let ?starstar = "\<lparr>args = [], kwargs = [], dyn_args = None,
                    dyn_kwargs = Some (Const (PInt 1) (Line 3))\<rparr>"
  let ?kw = "\<lparr>args = [], kwargs = [Keyword (PStr ''a'') (Const (PInt 1) (Line 3)) (Line 3)],
              dyn_args = None, dyn_kwargs = None\<rparr>"
  let ?pos = "\<lparr>args = [Const (PInt 1) (Line 3)], kwargs = [], dyn_args = None,
               dyn_kwargs = None\<rparr>"
  have int: "type (current ?int) = ''comma'' \<and> type (current (advance ?int)) \<noteq> ''rparen'' \<and>
    type (current (advance ?int)) \<noteq> ''mul'' \<and> type (current (advance ?int)) \<noteq> ''pow'' \<and>
    \<not> (type (current (advance ?int)) = ''name'' \<and> type (peek (advance ?int)) = ''assign'')"
    by (simp add: stream_defs)
  have pow: "type (current ?pow) = ''comma'' \<and> type (current (advance ?pow)) = ''pow''"
    by (simp add: stream_defs)
  have close: "type (current ?close) = ''comma'' \<and> type (current (advance ?close)) = ''rparen''"
    by (simp add: stream_defs)
  have after: "advance ?close = stream_of [tok 4 ''rparen'' (PStr '')'')]"
    by (simp add: stream_defs)
  have star: "dyn_args ?star \<noteq> None \<or> dyn_kwargs ?star \<noteq> None"
    and starstar: "dyn_kwargs ?starstar \<noteq> None" and kw: "kwargs ?kw \<noteq> []"
    by simp_all
  have one: "call_loop plain_env (Suc 0) ?lparen ?pe ?star True ?int =
             Inl (call_syntax_error plain_env ?lparen)"
    using call_argument_order [where s = ?int and a = ?star and self = plain_env and n = 0
        and token = ?lparen and pe = ?pe] int star
    by blast
  have two: "call_loop plain_env (Suc 0) ?lparen ?pe ?starstar True ?pow =
             Inl (call_syntax_error plain_env ?lparen)"
    using call_argument_order [where s = ?pow and a = ?starstar and self = plain_env and n = 0
        and token = ?lparen and pe = ?pe] pow starstar
    by blast
  have three: "call_loop plain_env (Suc 0) ?lparen ?pe ?kw True ?int =
             Inl (call_syntax_error plain_env ?lparen)"
    using call_argument_order [where s = ?int and a = ?kw and self = plain_env and n = 0
        and token = ?lparen and pe = ?pe] int kw
    by blast
  have four: "call_loop plain_env (Suc 0) ?lparen ?pe ?pos True ?close =
             Inr (?pos, advance ?close)"
    using call_argument_order [where s = ?close and a = ?pos and self = plain_env and n = 0
        and token = ?lparen and pe = ?pe] close
    by blast
  from one two three four show ?thesis
    unfolding after by blast
qed



section \<open>Subscripts with one and with several elements\<close>

lemma subscript_loop_stops_at_rbracket:
  "subscript_loop n sub xs s = Inr (ys, s') \<Longrightarrow> type (current s') = ''rbracket''"
proof (induction n arbitrary: xs s)
  case 0
  then show ?case by simp
next
  case (Suc n)
  then show ?case
    by (auto simp: bnd_def seq_def cur_def ret_def when_do_def
        split: if_splits sum.splits prod.splits)
qed

lemma bracket_subscript:
  assumes "type (current s) = ''lbracket''"
    and "subscript_loop n (parse_subscribed n primary) [] (advance s) = Inr (xs, s1)"
  shows "parse_subscript self n primary node s =
         (if length xs = 1
          then Inr (Subscript node (hd xs) ''load'' (Line (lineno (current s))), advance s1)
          else Inl (NameError ''lineno''))"
  using assms subscript_loop_stops_at_rbracket [OF assms(2)]
  by (simp add: parse_subscript_def subscript_argument_def bnd_def seq_def ret_def raise_def
      stream_next_def expect_def)

lemma subscript_one_example:
  "parse_primary self (5 + k) True
     (stream_of [tok 1 ''name'' (PStr ''x''), tok 2 ''lbracket'' (PStr ''[''),
                 tok 3 ''integer'' (PInt 1), tok 4 ''rbracket'' (PStr '']'')])
   = Inr (Subscript (Name (PStr ''x'') ''load'' (Line 1)) (Const (PInt 1) (Line 3)) ''load''
            (Line 2),
          \<lparr>current = tok 4 ''eof'' (PStr []), pending = [], name = None\<rparr>)"
  by (simp add: stream_defs expr_defs eval_nat_numeral cong: stream_congs)

lemma subscript_two_example:
  "parse_primary self (5 + k) True
     (stream_of [tok 1 ''name'' (PStr ''x''), tok 2 ''lbracket'' (PStr ''[''),
                 tok 3 ''integer'' (PInt 1), tok 3 ''comma'' (PStr '',''),
                 tok 3 ''integer'' (PInt 2), tok 4 ''rbracket'' (PStr '']'')])
   = Inl (NameError ''lineno'')"
  by (simp add: stream_defs expr_defs eval_nat_numeral cong: stream_congs)

text \<open>
  C8. \<^verbatim>\<open>x[1]\<close> parses to a \<^verbatim>\<open>Subscript\<close> node whose index is the element itself. \<^verbatim>\<open>x[1, 2]\<close>
  does not parse to a node with a tuple index: building the tuple reads the unbound name
  \<^verbatim>\<open>lineno\<close>, a \<^verbatim>\<open>NameError\<close>. For every node that is subscripted and every bracket whose
  elements parse: one element becomes the index, and any other number of elements is
  that error.
\<close>

theorem subscript_index_one_or_name_error:
  "parse_primary self (5 + k) True
     (stream_of [tok 1 ''name'' (PStr ''x''), tok 2 ''lbracket'' (PStr ''[''),
                 tok 3 ''integer'' (PInt 1), tok 4 ''rbracket'' (PStr '']'')])
   = Inr (Subscript (Name (PStr ''x'') ''load'' (Line 1)) (Const (PInt 1) (Line 3)) ''load''
            (Line 2),
          \<lparr>current = tok 4 ''eof'' (PStr []), pending = [], name = None\<rparr>) \<and>
   parse_primary self (5 + k) True
     (stream_of [tok 1 ''name'' (PStr ''x''), tok 2 ''lbracket'' (PStr ''[''),
                 tok 3 ''integer'' (PInt 1), tok 3 ''comma'' (PStr '',''),
                 tok 3 ''integer'' (PInt 2), tok 4 ''rbracket'' (PStr '']'')])
   = Inl (NameError ''lineno'') \<and>
   (type (current s) = ''lbracket'' \<and>
    subscript_loop n (parse_subscribed n primary) [] (advance s) = Inr (xs, s1) \<longrightarrow>
    parse_subscript self n primary node s =
      (if length xs = 1
       then Inr (Subscript node (hd xs) ''load'' (Line (lineno (current s))), advance s1)
       else Inl (NameError ''lineno'')))"
  using subscript_one_example [of self k] subscript_two_example [of self k]
    bracket_subscript [of s n primary xs s1 self node]
  by blast

lemma subscript_loop_two_example:
  "subscript_loop 4 (parse_subscribed 4 (parse_primary plain_env 4 True)) []
     (stream_of [tok 3 ''integer'' (PInt 1), tok 3 ''comma'' (PStr '',''),
                 tok 3 ''integer'' (PInt 2), tok 4 ''rbracket'' (PStr '']'')])
   = Inr ([Const (PInt 1) (Line 3), Const (PInt 2) (Line 3)],
          stream_of [tok 4 ''rbracket'' (PStr '']'')])"
  by (simp add: stream_defs expr_defs eval_nat_numeral cong: stream_congs)

theorem subscript_index_one_or_name_error_witness:
  "parse_subscript plain_env 4 (parse_primary plain_env 4 True)
     (Name (PStr ''x'') ''load'' (Line 1))
     (stream_of [tok 2 ''lbracket'' (PStr ''[''),
                 tok 3 ''integer'' (PInt 1), tok 3 ''comma'' (PStr '',''),
                 tok 3 ''integer'' (PInt 2), tok 4 ''rbracket'' (PStr '']'')])
   = Inl (NameError ''lineno'')"
proof -
  let ?bracket = "stream_of [tok 2 ''lbracket'' (PStr ''[''),
                 tok 3 ''integer'' (PInt 1), tok 3 ''comma'' (PStr '',''),
                 tok 3 ''integer'' (PInt 2), tok 4 ''rbracket'' (PStr '']'')]"
  let ?xs = "[Const (PInt 1) (Line 3), Const (PInt 2) (Line 3)]"
  have start: "type (current ?bracket) = ''lbracket''"
    by (simp add: stream_defs)
  have inside: "advance ?bracket =
      stream_of [tok 3 ''integer'' (PInt 1), tok 3 ''comma'' (PStr '',''),
                 tok 3 ''integer'' (PInt 2), tok 4 ''rbracket'' (PStr '']'')]"
    by (simp add: stream_defs)
  have two: "length ?xs \<noteq> 1"
    by simp
  from start subscript_loop_two_example [folded inside] 
    subscript_index_one_or_name_error [where s = ?bracket and n = 4 and self = plain_env
      and primary = "parse_primary plain_env 4 True" and xs = ?xs
      and ?s1.0 = "stream_of [tok 4 ''rbracket'' (PStr '']'')]"
      and node = "Name (PStr ''x'') ''load'' (Line 1)"]
  have "parse_subscript plain_env 4 (parse_primary plain_env 4 True)
          (Name (PStr ''x'') ''load'' (Line 1)) ?bracket =
        (if length ?xs = 1
         then Inr (Subscript (Name (PStr ''x'') ''load'' (Line 1)) (hd ?xs) ''load''
                     (Line (lineno (current ?bracket))),
                   advance (stream_of [tok 4 ''rbracket'' (PStr '']'')]))
         else Inl (NameError ''lineno''))"
    by blast
  with two show ?thesis
    by (simp only: if_False)
qed


section \<open>The last branch of the subscript method\<close>

text \<open>
  Rules for \<open>clean\<close> along the shape of a parser, and from them, for every method of the
  expression grammar: if \<^verbatim>\<open>parse_primary\<close> is clean, so is the method.
\<close>

lemma cleanD: "clean m \<Longrightarrow> internal_error e \<Longrightarrow> m s \<noteq> Inl e"
  by (auto simp: clean_def)

lemma clean_ret: "clean (ret a)"
  by (simp add: clean_def ret_def)

lemma clean_bnd: "clean m \<Longrightarrow> (\<And>a. clean (f a)) \<Longrightarrow> clean (bnd m f)"
  by (fastforce simp: clean_def bnd_def split: sum.splits)

lemma clean_seq: "clean m \<Longrightarrow> clean k \<Longrightarrow> clean (seq m k)"
  by (fastforce simp: clean_def seq_def split: sum.splits)

lemma clean_cur: "(\<And>t. clean (f t)) \<Longrightarrow> clean (cur f)"
  by (simp add: clean_def cur_def)

lemma clean_if: "(c \<Longrightarrow> clean a) \<Longrightarrow> (\<not> c \<Longrightarrow> clean b) \<Longrightarrow> clean (if c then a else b)"
  by simp

lemma clean_stream_next: "clean stream_next"
  by (simp add: clean_def stream_next_def)

lemma clean_stream_look: "clean stream_look"
  by (simp add: clean_def stream_look_def)

lemma clean_stream_skip2: "clean stream_skip2"
  by (simp add: clean_def stream_skip2_def)

lemma clean_expect: "clean (expect kind)"
  by (auto simp: clean_def expect_def stream_next_def)

lemma clean_when_do: "clean m \<Longrightarrow> clean (when_do c m)"
  by (fastforce simp: clean_def when_do_def seq_def ret_def split: sum.splits)

lemma clean_ensure: "clean (ensure self token ok)"
  by (auto simp: clean_def ensure_def raise_def ret_def)

lemma clean_case_option:
  "clean a \<Longrightarrow> (\<And>x. clean (b x)) \<Longrightarrow> clean (case opt of None \<Rightarrow> a | Some x \<Rightarrow> b x)"
  by (cases opt) simp_all

lemma clean_case_prod3:
  "(\<And>x y z. clean (f x y z)) \<Longrightarrow> clean (case r of (x, y, z) \<Rightarrow> f x y z)"
  by (cases r) simp

lemma clean_case_call_result:
  "(\<And>a. clean (f a)) \<Longrightarrow> (\<And>x. clean (g x)) \<Longrightarrow>
   clean (case r of CallArgs a \<Rightarrow> f a | CallNode x \<Rightarrow> g x)"
  by (cases r) simp_all

lemma clean_raise: "\<not> internal_error e \<Longrightarrow> clean (raise e)"
  by (simp add: clean_def raise_def)

lemma clean_eq: "(\<And>s. m s = m' s) \<Longrightarrow> clean m' \<Longrightarrow> clean m"
  by (simp add: clean_def)

lemma clean_out_of_fuel: "(\<And>s. m s = Inl OutOfFuel) \<Longrightarrow> clean m"
  by (auto simp: clean_def)

lemmas clean_intros = clean_ret clean_bnd clean_seq clean_cur clean_if clean_stream_next
  clean_stream_look clean_stream_skip2 clean_expect clean_when_do clean_ensure
  clean_case_option clean_case_prod3 clean_case_call_result clean_raise


lemma clean_binary_loop:
  "clean sub \<Longrightarrow>
   clean (binary_loop n kind mk sub lno left)"
proof (induction n arbitrary: lno left)
  case 0
  show ?case by (rule clean_out_of_fuel) simp
next
  case (Suc n)
  then show ?case
    by (intro clean_eq [OF binary_loop.simps(2)] clean_intros)
qed

lemma clean_binary:
  "clean sub \<Longrightarrow> clean (binary n kind mk sub)"
  unfolding binary_def [abs_def]
  by (intro clean_intros clean_binary_loop)

lemma clean_parse_unary:
  "clean primary \<Longrightarrow> clean (parse_unary n primary)"
proof (induction n)
  case 0
  show ?case by (rule clean_out_of_fuel) simp
next
  case (Suc n)
  then show ?case
    by (intro clean_eq [OF parse_unary.simps(2)] clean_intros)
qed

lemma clean_parse_mul:
  assumes "clean primary"
  shows "clean (parse_mul n primary)"
  unfolding parse_mul_def [abs_def] parse_div_def [abs_def] parse_floordiv_def [abs_def]
    parse_mod_def [abs_def] parse_pow_def [abs_def]
  by (intro clean_binary clean_parse_unary assms)

lemma clean_concat_loop:
  "clean sub \<Longrightarrow> clean (concat_loop n sub xs)"
proof (induction n arbitrary: xs)
  case 0
  show ?case by (rule clean_out_of_fuel) simp
next
  case (Suc n)
  then show ?case
    by (intro clean_eq [OF concat_loop.simps(2)] clean_intros)
qed

lemma clean_parse_add:
  assumes "clean primary"
  shows "clean (parse_add n primary)"
  unfolding parse_add_def [abs_def] parse_sub_def [abs_def] parse_concat_def [abs_def]
  by (intro clean_binary clean_intros clean_concat_loop clean_parse_mul assms)

lemma clean_compare_loop:
  "clean sub \<Longrightarrow>
   clean (compare_loop n sub ops lno)"
proof (induction n arbitrary: ops lno)
  case 0
  show ?case by (rule clean_out_of_fuel) simp
next
  case (Suc n)
  then show ?case
    by (intro clean_eq [OF compare_loop.simps(2)] clean_intros)
qed

lemma clean_parse_or:
  assumes "clean primary"
  shows "clean (parse_or n primary)"
  unfolding parse_or_def [abs_def] parse_and_def [abs_def] parse_compare_def [abs_def]
  by (intro clean_binary clean_intros clean_compare_loop clean_parse_add assms)

lemma clean_condexpr_loop:
  "clean por \<Longrightarrow> clean self_condexpr \<Longrightarrow>
   clean (condexpr_loop n por self_condexpr lno expr1)"
proof (induction n arbitrary: lno expr1)
  case 0
  show ?case by (rule clean_out_of_fuel) simp
next
  case (Suc n)
  then show ?case
    by (intro clean_eq [OF condexpr_loop.simps(2)] clean_intros)
qed

lemma clean_parse_condexpr:
  "clean primary \<Longrightarrow>
   clean (parse_condexpr n primary)"
proof (induction n)
  case 0
  show ?case by (rule clean_out_of_fuel) simp
next
  case (Suc n)
  then show ?case
    by (intro clean_eq [OF parse_condexpr.simps(2)] clean_intros clean_condexpr_loop
        clean_parse_or)
qed

lemma clean_parse_expression:
  assumes "clean primary"
  shows "clean (parse_expression n primary no_condexpr)"
proof -
  have "parse_expression n primary no_condexpr =
        (if no_condexpr then parse_or n primary else parse_condexpr n primary)"
    by (rule ext) (simp add: parse_expression_def)
  with assms show ?thesis
    by (simp add: clean_parse_or clean_parse_condexpr)
qed

lemma clean_call_argument:
  "clean pe \<Longrightarrow>
   clean (call_argument self token pe a)"
  unfolding call_argument_def [abs_def]
  by (intro clean_intros)

lemma clean_call_loop:
  "clean pe \<Longrightarrow>
   clean (call_loop self n token pe a require_comma)"
proof (induction n arbitrary: a require_comma)
  case 0
  show ?case by (rule clean_out_of_fuel) simp
next
  case (Suc n)
  then show ?case
    by (intro clean_eq [OF call_loop.simps(2)] clean_intros clean_call_argument)
qed

lemma clean_parse_call:
  "clean primary \<Longrightarrow>
   clean (parse_call self n primary node)"
  unfolding parse_call_def [abs_def]
  by (intro clean_intros clean_call_loop clean_parse_expression)

lemma parse_call_with_node:
  assumes "parse_call self n primary (Some f) s = Inr (r, s')"
  shows "\<exists>e. r = CallNode e"
  using assms
  by (auto simp: parse_call_def bnd_def seq_def ret_def split: sum.splits)

lemma parse_call_without_node:
  assumes "parse_call self n primary None s = Inr (r, s')"
  shows "\<exists>a. r = CallArgs a"
  using assms
  by (auto simp: parse_call_def bnd_def seq_def ret_def split: sum.splits)

lemma clean_parse_call_none:
  assumes "clean primary"
  shows "clean (parse_call_none self n primary)"
  unfolding clean_def
proof (intro allI impI)
  fix s e
  assume failed: "parse_call_none self n primary s = Inl e"
  show "\<not> internal_error e"
  proof (cases "parse_call self n primary None s")
    case (Inl e')
    with failed have "e' = e"
      by (simp add: parse_call_none_def bnd_def)
    with Inl clean_parse_call [OF assms, of self n None] show ?thesis
      by (auto simp: clean_def)
  next
    case (Inr r)
    then obtain a s' where "parse_call self n primary None s = Inr (CallArgs a, s')"
      using parse_call_without_node [of self n primary s "fst r" "snd r"]
      by (cases r) auto
    with failed show ?thesis
      by (simp add: parse_call_none_def bnd_def ret_def)
  qed
qed

lemma clean_filter_loop:
  "clean primary \<Longrightarrow>
   clean (filter_loop self n primary node start_inline)"
proof (induction n arbitrary: node start_inline)
  case 0
  show ?case by (rule clean_out_of_fuel) simp
next
  case (Suc n)
  then show ?case
    by (intro clean_eq [OF filter_loop.simps(2)] clean_intros clean_parse_call_none)
qed

lemma clean_parse_filter:
  "clean primary \<Longrightarrow>
   clean (parse_filter self n primary node start_inline)"
  unfolding parse_filter_def [abs_def]
  by (rule clean_filter_loop)

lemma clean_parse_test:
  "clean primary \<Longrightarrow>
   clean (parse_test self n primary node)"
  unfolding parse_test_def [abs_def]
  by (intro clean_intros clean_parse_call_none clean_parse_expression)

lemma clean_slice_rest:
  "clean pe \<Longrightarrow> clean (slice_rest pe lno start)"
  unfolding slice_rest_def [abs_def]
  by (intro clean_intros)

lemma clean_parse_subscribed:
  "clean primary \<Longrightarrow>
   clean (parse_subscribed n primary)"
  unfolding parse_subscribed_def [abs_def]
  by (intro clean_intros clean_slice_rest clean_parse_expression)

lemma clean_subscript_loop:
  "clean subscribed \<Longrightarrow>
   clean (subscript_loop n subscribed xs)"
proof (induction n arbitrary: xs)
  case 0
  show ?case by (rule clean_out_of_fuel) simp
next
  case (Suc n)
  then show ?case
    by (intro clean_eq [OF subscript_loop.simps(2)] clean_intros)
qed


lemma clean_subscript_argument:
  assumes "clean primary"
    and "type token = ''dot'' \<or> type token = ''lbracket''"
  shows "clean (subscript_argument self n primary token)"
proof -
  have "subscript_argument self n primary token =
     (if type token = ''dot''
      then cur (\<lambda>attr_token.
             if type attr_token \<notin> set [''name'', ''integer'']
             then raise (TemplateSyntaxError (Format ''expected name or number'' [])
                           (Line (lineno attr_token)) (filename self))
             else seq stream_next
                  (ret (Const (val attr_token) (Line (lineno attr_token)))))
      else bnd (subscript_loop n (parse_subscribed n primary) []) (\<lambda>xs.
           seq (expect ''rbracket'')
           (if length xs = 1 then ret (hd xs)
            else raise (NameError ''lineno''))))"
    using assms(2) by (intro ext) (auto simp: subscript_argument_def)
  with assms(1) show ?thesis
    by (auto intro!: clean_intros clean_subscript_loop clean_parse_subscribed)
qed

lemma bnd_stream_next: "bnd stream_next f s = f (current s) (advance s)"
  by (simp add: bnd_def stream_next_def)

lemma parse_subscript_no_internal_error:
  assumes "clean primary"
    and "type (current s) = ''dot'' \<or> type (current s) = ''lbracket''"
    and "internal_error e"
  shows "parse_subscript self n primary node s \<noteq> Inl e"
proof -
  have "clean
          (bnd (subscript_argument self n primary (current s)) (\<lambda>arg.
           ret (Subscript node arg ''load'' (Line (lineno (current s))))))"
    using assms(1,2) by (intro clean_intros clean_subscript_argument)
  from cleanD [OF this assms(3)] show ?thesis
    by (simp add: parse_subscript_def bnd_stream_next)
qed

lemma parse_subscript_attribute_error:
  assumes "type (current s) \<noteq> ''dot''" and "type (current s) \<noteq> ''lbracket''"
  shows "parse_subscript self n primary node s = Inl (AttributeError ''lineno'')"
  using assms
  by (simp add: parse_subscript_def stream_next_def subscript_argument_def bnd_def raise_def)

lemma filter_loop_keeps_node:
  "filter_loop self n primary (Some e) start_inline s = Inr (r, s') \<Longrightarrow> r \<noteq> None"
proof (induction n arbitrary: e start_inline s)
  case 0
  then show ?case by simp
next
  case (Suc n)
  then show ?case
    by (auto simp: bnd_def seq_def cur_def ret_def when_do_def split: sum.splits if_splits)
qed

lemma bnd_fails:
  assumes "bnd m f s = Inl e"
  shows "m s = Inl e \<or> (\<exists>a s'. m s = Inr (a, s') \<and> f a s' = Inl e)"
  using assms by (auto simp: bnd_def split: sum.splits)

lemma clean_parse_postfix:
  "clean primary \<Longrightarrow> clean (parse_postfix self n primary node)"
proof (induction n arbitrary: node)
  case 0
  show ?case by (rule clean_out_of_fuel) simp
next
  case (Suc n)
  have rest: "clean (parse_postfix self n primary x)" for x
    by (rule Suc.IH) (rule Suc.prems)
  show ?case
    unfolding clean_def
  proof (intro allI impI)
    fix s e
    assume failed: "parse_postfix self (Suc n) primary node s = Inl e"
    show "\<not> internal_error e"
    proof
      assume internal: "internal_error e"
      consider
        (subscript) "type (current s) = ''dot'' \<or> type (current s) = ''lbracket''" |
        (call) "\<not> (type (current s) = ''dot'' \<or> type (current s) = ''lbracket'')"
          "type (current s) = ''lparen''" |
        (pipe) "\<not> (type (current s) = ''dot'' \<or> type (current s) = ''lbracket'')"
          "type (current s) \<noteq> ''lparen''" "type (current s) = ''pipe''" |
        (test) "\<not> (type (current s) = ''dot'' \<or> type (current s) = ''lbracket'')"
          "type (current s) \<noteq> ''lparen''" "type (current s) \<noteq> ''pipe''"
          "type (current s) = ''is''" |
        (none) "\<not> (type (current s) = ''dot'' \<or> type (current s) = ''lbracket'')"
          "type (current s) \<noteq> ''lparen''" "type (current s) \<noteq> ''pipe''"
          "type (current s) \<noteq> ''is''"
        by blast
      then show False
      proof cases
        case subscript
        with failed
        have "bnd (parse_subscript self n primary node) (parse_postfix self n primary) s = Inl e"
          by (simp add: cur_def)
        from bnd_fails [OF this]
          parse_subscript_no_internal_error [OF Suc.prems subscript internal]
          cleanD [OF rest internal]
        show False by blast
      next
        case call
        with failed
        have "bnd (parse_call self n primary (Some node)) (\<lambda>r.
                case r of
                  CallNode x \<Rightarrow> parse_postfix self n primary x
                | CallArgs a \<Rightarrow> raise (TypeError ''tuple is not a node'')) s = Inl e"
          by (simp add: cur_def)
        from bnd_fails [OF this]
          cleanD [OF clean_parse_call [OF Suc.prems] internal]
          parse_call_with_node [of self n primary node s]
          cleanD [OF rest internal]
        show False by fastforce
      next
        case pipe
        with failed
        have "bnd (parse_filter self n primary (Some node) False) (\<lambda>r.
                case r of
                  Some x \<Rightarrow> parse_postfix self n primary x
                | None \<Rightarrow> raise (TypeError ''None is not a node'')) s = Inl e"
          by (simp add: cur_def)
        from bnd_fails [OF this]
          cleanD [OF clean_parse_filter [OF Suc.prems] internal]
          filter_loop_keeps_node [of self n primary node False s]
          cleanD [OF rest internal]
        show False by (fastforce simp: parse_filter_def)
      next
        case test
        with failed
        have "bnd (parse_test self n primary node) (parse_postfix self n primary) s = Inl e"
          by (simp add: cur_def)
        from bnd_fails [OF this]
          cleanD [OF clean_parse_test [OF Suc.prems] internal]
          cleanD [OF rest internal]
        show False by blast
      next
        case none
        with failed show False
          by (simp add: cur_def ret_def)
      qed
    qed
  qed
qed

lemma clean_tuple_parse:
  assumes "clean primary"
  shows "clean (tuple_parse n primary simplified no_condexpr)"
proof -
  have "tuple_parse n primary simplified no_condexpr =
        (if simplified then primary
         else if no_condexpr then parse_expression n primary True
         else parse_expression n primary False)"
    by (rule ext) (simp add: tuple_parse_def)
  with assms show ?thesis
    by (simp add: clean_parse_expression)
qed

lemma clean_tuple_loop:
  "clean p \<Longrightarrow>
   clean (tuple_loop n p xs is_tuple lno)"
proof (induction n arbitrary: xs is_tuple lno)
  case 0
  show ?case by (rule clean_out_of_fuel) simp
next
  case (Suc n)
  then show ?case
    by (intro clean_eq [OF tuple_loop.simps(2)] clean_intros)
qed

lemma clean_parse_tuple:
  "clean primary \<Longrightarrow>
   clean (parse_tuple self n primary enforce simplified no_condexpr)"
  unfolding parse_tuple_def [abs_def]
  by (intro clean_intros clean_tuple_loop clean_tuple_parse) simp_all

lemma clean_list_loop:
  "clean pe \<Longrightarrow> clean (list_loop n pe items)"
proof (induction n arbitrary: items)
  case 0
  show ?case by (rule clean_out_of_fuel) simp
next
  case (Suc n)
  then show ?case
    by (intro clean_eq [OF list_loop.simps(2)] clean_intros)
qed

lemma clean_parse_list:
  "clean primary \<Longrightarrow>
   clean (parse_list n primary)"
  unfolding parse_list_def [abs_def]
  by (intro clean_intros clean_list_loop clean_parse_expression)

lemma clean_dict_loop:
  "clean pe \<Longrightarrow> clean (dict_loop n pe items)"
proof (induction n arbitrary: items)
  case 0
  show ?case by (rule clean_out_of_fuel) simp
next
  case (Suc n)
  then show ?case
    by (intro clean_eq [OF dict_loop.simps(2)] clean_intros)
qed

lemma clean_parse_dict:
  "clean primary \<Longrightarrow>
   clean (parse_dict n primary)"
  unfolding parse_dict_def [abs_def]
  by (intro clean_intros clean_dict_loop clean_parse_expression)

lemma clean_parse_primary:
  "clean (parse_primary self n postfix)"
proof (induction n arbitrary: postfix)
  case 0
  show ?case by (rule clean_out_of_fuel) simp
next
  case (Suc n)
  then show ?case
    by (intro clean_eq [OF parse_primary.simps(2)] clean_intros clean_parse_tuple
        clean_parse_list clean_parse_dict clean_parse_postfix) simp_all
qed


text \<open>
  C10. The last branch of \<^verbatim>\<open>parse_subscript\<close> fails on reading \<^verbatim>\<open>self.lineno\<close>, and it is
  the only place of the expression parser that fails so. \<^verbatim>\<open>parse_subscript\<close> takes that
  branch exactly when the current token is neither a dot nor a left bracket. The loop of
  \<^verbatim>\<open>parse_postfix\<close> calls it on a dot or a left bracket only, so neither
  \<^verbatim>\<open>parse_postfix\<close> nor any method that reaches it through \<^verbatim>\<open>parse_primary\<close> or
  \<^verbatim>\<open>parse_expression\<close> ever fails with that error, whatever the stream and the bound.
\<close>

theorem subscript_error_branch_unreachable:
  "(type (current s) = ''dot'' \<or> type (current s) = ''lbracket'' \<longrightarrow>
    parse_subscript self n (parse_primary self m True) node s \<noteq> Inl (AttributeError ''lineno'')) \<and>
   (type (current s) \<noteq> ''dot'' \<and> type (current s) \<noteq> ''lbracket'' \<longrightarrow>
    parse_subscript self n primary node s = Inl (AttributeError ''lineno'')) \<and>
   parse_postfix self n (parse_primary self m True) node s \<noteq> Inl (AttributeError ''lineno'') \<and>
   parse_primary self n postfix s \<noteq> Inl (AttributeError ''lineno'') \<and>
   parse_expression n (parse_primary self m True) no_condexpr s \<noteq> Inl (AttributeError ''lineno'')"
proof (intro conjI impI)
  assume "type (current s) = ''dot'' \<or> type (current s) = ''lbracket''"
  then show "parse_subscript self n (parse_primary self m True) node s
             \<noteq> Inl (AttributeError ''lineno'')"
    by (intro parse_subscript_no_internal_error [OF clean_parse_primary]) simp_all
next
  assume "type (current s) \<noteq> ''dot'' \<and> type (current s) \<noteq> ''lbracket''"
  then show "parse_subscript self n primary node s = Inl (AttributeError ''lineno'')"
    by (simp add: parse_subscript_attribute_error)
next
  show "parse_postfix self n (parse_primary self m True) node s \<noteq> Inl (AttributeError ''lineno'')"
    by (intro cleanD [OF clean_parse_postfix [OF clean_parse_primary]]) simp
next
  show "parse_primary self n postfix s \<noteq> Inl (AttributeError ''lineno'')"
    by (intro cleanD [OF clean_parse_primary]) simp
next
  show "parse_expression n (parse_primary self m True) no_condexpr s
        \<noteq> Inl (AttributeError ''lineno'')"
    by (intro cleanD [OF clean_parse_expression [OF clean_parse_primary]]) simp
qed

theorem subscript_error_branch_unreachable_witness:
  "parse_subscript plain_env 3 (parse_primary plain_env 3 True) (Name (PStr ''x'') ''load'' (Line 1))
     (stream_of [tok 1 ''dot'' (PStr ''.''), tok 1 ''name'' (PStr ''y'')])
   \<noteq> Inl (AttributeError ''lineno'') \<and>
   parse_subscript plain_env 3 (parse_primary plain_env 3 True) (Name (PStr ''x'') ''load'' (Line 1))
     (stream_of [tok 1 ''name'' (PStr ''y'')])
   = Inl (AttributeError ''lineno'')"
proof -
  let ?dot = "stream_of [tok 1 ''dot'' (PStr ''.''), tok 1 ''name'' (PStr ''y'')]"
  let ?other = "stream_of [tok 1 ''name'' (PStr ''y'')]"
  have dot: "type (current ?dot) = ''dot'' \<or> type (current ?dot) = ''lbracket''"
    by (simp add: stream_defs)
  have other: "type (current ?other) \<noteq> ''dot'' \<and> type (current ?other) \<noteq> ''lbracket''"
    by (simp add: stream_defs)
  from dot other
    subscript_error_branch_unreachable [where s = ?dot and self = plain_env and n = 3 and m = 3
      and node = "Name (PStr ''x'') ''load'' (Line 1)"]
    subscript_error_branch_unreachable [where s = ?other and self = plain_env and n = 3
      and primary = "parse_primary plain_env 3 True"
      and node = "Name (PStr ''x'') ''load'' (Line 1)"]
  show ?thesis
    by blast
qed



text \<open>
  The same induction shows that the type errors of the model are never results: where
  \<^verbatim>\<open>parse_postfix\<close>, \<^verbatim>\<open>parse_filter\<close> and \<^verbatim>\<open>parse_test\<close> take apart what \<^verbatim>\<open>parse_call\<close> and
  \<^verbatim>\<open>parse_filter\<close> return, the result always has the shape they expect.
\<close>

lemma expression_results_have_expected_shape:
  "parse_primary self n postfix s \<noteq> Inl (TypeError msg)"
  "parse_expression n (parse_primary self m True) no_condexpr s \<noteq> Inl (TypeError msg)"
  "parse_tuple self n (parse_primary self m True) enforce simplified no_condexpr s
   \<noteq> Inl (TypeError msg)"
  by (intro cleanD [OF clean_parse_primary]
      cleanD [OF clean_parse_expression [OF clean_parse_primary]]
      cleanD [OF clean_parse_tuple [OF clean_parse_primary]]; simp)+

section \<open>The iterable and the guard of a for loop\<close>

lemma for_guard_example:
  assumes "can_assign self (Name (PStr ''x'') ''load'' (Line 1))"
  shows "parse_for self (6 + k) (parse_statement self (6 + k))
     (stream_of [tok 1 ''for'' (PStr ''for''), tok 1 ''name'' (PStr ''x''),
                 tok 1 ''in'' (PStr ''in''), tok 1 ''name'' (PStr ''items''),
                 tok 1 ''if'' (PStr ''if''), tok 1 ''name'' (PStr ''x''),
                 tok 1 ''dot'' (PStr ''.''), tok 1 ''name'' (PStr ''active''),
                 tok 1 ''block_end'' (PStr ''%}''), tok 2 ''data'' (PStr ''body''),
                 tok 3 ''block_begin'' (PStr ''{%''), tok 3 ''endfor'' (PStr ''endfor''),
                 tok 3 ''block_end'' (PStr ''%}'')])
   = Inr (For (set_ctx self ''store'' (Name (PStr ''x'') ''load'' (Line 1)))
            (Name (PStr ''items'') ''load'' (Line 1))
            [Output [Const (PStr ''body'') (Line 2)] (Line 2)] []
            (Some (Subscript (Name (PStr ''x'') ''load'' (Line 1))
                     (Const (PStr ''active'') (Line 1)) ''load'' (Line 1)))
            (Line 1),
          stream_of [tok 3 ''block_end'' (PStr ''%}'')])"
  using assms
  by (simp add: stream_defs expr_defs stmt_defs eval_nat_numeral cong: stream_congs)


lemma for_no_guard_example:
  assumes "can_assign self (Name (PStr ''x'') ''load'' (Line 1))"
  shows "parse_for self (6 + k) (parse_statement self (6 + k))
     (stream_of [tok 1 ''for'' (PStr ''for''), tok 1 ''name'' (PStr ''x''),
                 tok 1 ''in'' (PStr ''in''), tok 1 ''name'' (PStr ''items''),
                 tok 1 ''block_end'' (PStr ''%}''), tok 2 ''data'' (PStr ''body''),
                 tok 3 ''block_begin'' (PStr ''{%''), tok 3 ''endfor'' (PStr ''endfor''),
                 tok 3 ''block_end'' (PStr ''%}'')])
   = Inr (For (set_ctx self ''store'' (Name (PStr ''x'') ''load'' (Line 1)))
            (Name (PStr ''items'') ''load'' (Line 1))
            [Output [Const (PStr ''body'') (Line 2)] (Line 2)] [] None (Line 1),
          stream_of [tok 3 ''block_end'' (PStr ''%}'')])"
  using assms
  by (simp add: stream_defs expr_defs stmt_defs eval_nat_numeral cong: stream_congs)

lemma iterable_without_condexpr_example:
  "parse_tuple self (6 + k) (parse_primary self (6 + k) True) False False True
     (stream_of [tok 1 ''name'' (PStr ''items''),
                 tok 1 ''if'' (PStr ''if''), tok 1 ''name'' (PStr ''x''),
                 tok 1 ''dot'' (PStr ''.''), tok 1 ''name'' (PStr ''active''),
                 tok 1 ''block_end'' (PStr ''%}'')])
   = Inr (Name (PStr ''items'') ''load'' (Line 1),
          stream_of [tok 1 ''if'' (PStr ''if''), tok 1 ''name'' (PStr ''x''),
                     tok 1 ''dot'' (PStr ''.''), tok 1 ''name'' (PStr ''active''),
                     tok 1 ''block_end'' (PStr ''%}'')])"
  by (simp add: stream_defs expr_defs eval_nat_numeral cong: stream_congs)

lemma iterable_with_condexpr_example:
  "parse_tuple self (6 + k) (parse_primary self (6 + k) True) False False False
     (stream_of [tok 1 ''name'' (PStr ''items''),
                 tok 1 ''if'' (PStr ''if''), tok 1 ''name'' (PStr ''x''),
                 tok 1 ''dot'' (PStr ''.''), tok 1 ''name'' (PStr ''active''),
                 tok 1 ''block_end'' (PStr ''%}'')])
   = Inl (TemplateSyntaxError
            (ExpectFailed ''else'' None (tok 1 ''block_end'' (PStr ''%}''))) (Line 1) None)"
  by (simp add: stream_defs expr_defs eval_nat_numeral cong: stream_congs)

text \<open>
  C6. \<^verbatim>\<open>parse_for\<close> parses the iterable with \<^verbatim>\<open>no_condexpr\<close> set. On
  \<^verbatim>\<open>for x in items if x.active\<close>, with a body and \<^verbatim>\<open>endfor\<close>, the iterable of the \<^verbatim>\<open>For\<close> node
  is \<^verbatim>\<open>items\<close> and its test is \<^verbatim>\<open>x.active\<close>; without the \<^verbatim>\<open>if\<close> the test is \<^verbatim>\<open>None\<close>. Parsed
  as a tuple with \<^verbatim>\<open>no_condexpr\<close> set, \<^verbatim>\<open>items if x.active\<close> yields \<^verbatim>\<open>items\<close> and stops before
  the \<^verbatim>\<open>if\<close>; parsed with conditional expressions allowed, the \<^verbatim>\<open>if\<close> starts a conditional
  expression, which fails for want of an \<^verbatim>\<open>else\<close>.
\<close>

theorem for_iterable_without_condexpr:
  "(can_assign self (Name (PStr ''x'') ''load'' (Line 1)) \<longrightarrow>
    parse_for self (6 + k) (parse_statement self (6 + k))
     (stream_of [tok 1 ''for'' (PStr ''for''), tok 1 ''name'' (PStr ''x''),
                 tok 1 ''in'' (PStr ''in''), tok 1 ''name'' (PStr ''items''),
                 tok 1 ''if'' (PStr ''if''), tok 1 ''name'' (PStr ''x''),
                 tok 1 ''dot'' (PStr ''.''), tok 1 ''name'' (PStr ''active''),
                 tok 1 ''block_end'' (PStr ''%}''), tok 2 ''data'' (PStr ''body''),
                 tok 3 ''block_begin'' (PStr ''{%''), tok 3 ''endfor'' (PStr ''endfor''),
                 tok 3 ''block_end'' (PStr ''%}'')])
    = Inr (For (set_ctx self ''store'' (Name (PStr ''x'') ''load'' (Line 1)))
            (Name (PStr ''items'') ''load'' (Line 1))
            [Output [Const (PStr ''body'') (Line 2)] (Line 2)] []
            (Some (Subscript (Name (PStr ''x'') ''load'' (Line 1))
                     (Const (PStr ''active'') (Line 1)) ''load'' (Line 1)))
            (Line 1),
          stream_of [tok 3 ''block_end'' (PStr ''%}'')]) \<and>
    parse_for self (6 + k) (parse_statement self (6 + k))
     (stream_of [tok 1 ''for'' (PStr ''for''), tok 1 ''name'' (PStr ''x''),
                 tok 1 ''in'' (PStr ''in''), tok 1 ''name'' (PStr ''items''),
                 tok 1 ''block_end'' (PStr ''%}''), tok 2 ''data'' (PStr ''body''),
                 tok 3 ''block_begin'' (PStr ''{%''), tok 3 ''endfor'' (PStr ''endfor''),
                 tok 3 ''block_end'' (PStr ''%}'')])
    = Inr (For (set_ctx self ''store'' (Name (PStr ''x'') ''load'' (Line 1)))
            (Name (PStr ''items'') ''load'' (Line 1))
            [Output [Const (PStr ''body'') (Line 2)] (Line 2)] [] None (Line 1),
          stream_of [tok 3 ''block_end'' (PStr ''%}'')])) \<and>
   parse_tuple self (6 + k) (parse_primary self (6 + k) True) False False True
     (stream_of [tok 1 ''name'' (PStr ''items''),
                 tok 1 ''if'' (PStr ''if''), tok 1 ''name'' (PStr ''x''),
                 tok 1 ''dot'' (PStr ''.''), tok 1 ''name'' (PStr ''active''),
                 tok 1 ''block_end'' (PStr ''%}'')])
   = Inr (Name (PStr ''items'') ''load'' (Line 1),
          stream_of [tok 1 ''if'' (PStr ''if''), tok 1 ''name'' (PStr ''x''),
                     tok 1 ''dot'' (PStr ''.''), tok 1 ''name'' (PStr ''active''),
                     tok 1 ''block_end'' (PStr ''%}'')]) \<and>
   parse_tuple self (6 + k) (parse_primary self (6 + k) True) False False False
     (stream_of [tok 1 ''name'' (PStr ''items''),
                 tok 1 ''if'' (PStr ''if''), tok 1 ''name'' (PStr ''x''),
                 tok 1 ''dot'' (PStr ''.''), tok 1 ''name'' (PStr ''active''),
                 tok 1 ''block_end'' (PStr ''%}'')])
   = Inl (TemplateSyntaxError
            (ExpectFailed ''else'' None (tok 1 ''block_end'' (PStr ''%}''))) (Line 1) None)"
  using for_guard_example [of self k] for_no_guard_example [of self k]
    iterable_without_condexpr_example [of self k] iterable_with_condexpr_example [of self k]
  by blast

theorem for_iterable_without_condexpr_witness:
  "parse_for plain_env (6 + 0) (parse_statement plain_env (6 + 0))
     (stream_of [tok 1 ''for'' (PStr ''for''), tok 1 ''name'' (PStr ''x''),
                 tok 1 ''in'' (PStr ''in''), tok 1 ''name'' (PStr ''items''),
                 tok 1 ''if'' (PStr ''if''), tok 1 ''name'' (PStr ''x''),
                 tok 1 ''dot'' (PStr ''.''), tok 1 ''name'' (PStr ''active''),
                 tok 1 ''block_end'' (PStr ''%}''), tok 2 ''data'' (PStr ''body''),
                 tok 3 ''block_begin'' (PStr ''{%''), tok 3 ''endfor'' (PStr ''endfor''),
                 tok 3 ''block_end'' (PStr ''%}'')])
    = Inr (For (Name (PStr ''x'') ''store'' (Line 1))
            (Name (PStr ''items'') ''load'' (Line 1))
            [Output [Const (PStr ''body'') (Line 2)] (Line 2)] []
            (Some (Subscript (Name (PStr ''x'') ''load'' (Line 1))
                     (Const (PStr ''active'') (Line 1)) ''load'' (Line 1)))
            (Line 1),
          stream_of [tok 3 ''block_end'' (PStr ''%}'')])"
proof -
  have ok: "can_assign plain_env (Name (PStr ''x'') ''load'' (Line 1))"
    by (simp add: plain_env_def)
  have ctx: "set_ctx plain_env ''store'' (Name (PStr ''x'') ''load'' (Line 1))
             = Name (PStr ''x'') ''store'' (Line 1)"
    by (simp add: plain_env_def)
  from for_iterable_without_condexpr [of plain_env 0, THEN conjunct1, THEN mp, OF ok,
      THEN conjunct1]
  show ?thesis
    unfolding ctx .
qed



section \<open>Names of a from-import\<close>

lemma reserved_name_raises_name_error:
  assumes "type (current s) = ''name''" and "val (current s) = PStr nm"
    and "take 2 nm = ''__''"
    and "can_assign self (Name (PStr nm) ''store'' NoLine)"
  shows "from_loop self (Suc n) [] s = Inl (NameError ''TemplateAssertionError'')"
  using assms
  by (simp add: seq_def cur_def ret_def raise_def when_do_def)

lemma unassignable_name_raises_syntax_error:
  assumes "type (current s) = ''name''"
    and "\<not> can_assign self (Name (val (current s)) ''store'' NoLine)"
  shows "from_loop self (Suc n) [] s =
         Inl (TemplateSyntaxError (Format ''can't import object named %r'' [Repr (val (current s))])
                NoLine (filename self))"
  using assms
  by (simp add: seq_def cur_def ret_def raise_def when_do_def)

lemma from_reserved_example:
  assumes "can_assign self (Name (PStr ''__x'') ''store'' NoLine)"
  shows "parse_from self (5 + k)
     (stream_of [tok 1 ''from'' (PStr ''from''), tok 1 ''name'' (PStr ''t''),
                 tok 1 ''import'' (PStr ''import''), tok 1 ''name'' (PStr ''__x''),
                 tok 1 ''block_end'' (PStr ''%}'')])
   = Inl (NameError ''TemplateAssertionError'')"
  using assms
  by (simp add: stream_defs expr_defs stmt_defs eval_nat_numeral cong: stream_congs)

lemma from_alias_example:
  assumes "can_assign self (Name (PStr ''x'') ''store'' NoLine)"
    and "can_assign self (Name (PStr ''y'') ''store'' NoLine)"
  shows "parse_from self (5 + k)
     (stream_of [tok 1 ''from'' (PStr ''from''), tok 1 ''name'' (PStr ''t''),
                 tok 1 ''import'' (PStr ''import''), tok 1 ''name'' (PStr ''x''),
                 tok 1 ''name'' (PStr ''as''), tok 1 ''name'' (PStr ''y''),
                 tok 1 ''block_end'' (PStr ''%}'')])
   = Inr (FromImport (Name (PStr ''t'') ''load'' (Line 1)) [Aliased (PStr ''x'') (PStr ''y'')]
            (Line 1),
          stream_of [tok 1 ''block_end'' (PStr ''%}'')])"
  using assms
  by (simp add: stream_defs expr_defs stmt_defs eval_nat_numeral cong: stream_congs)

text \<open>
  C7. \<^verbatim>\<open>from t import x as y\<close> parses to a \<^verbatim>\<open>FromImport\<close> node with the names
  \<^verbatim>\<open>[(x, y)]\<close>. \<^verbatim>\<open>from t import __x\<close> fails, but not with an error of the template
  exceptions: the branch for a name that starts with two underscores raises
  \<^verbatim>\<open>TemplateAssertionError\<close>, a name the module never imports, so what the caller gets is
  a \<^verbatim>\<open>NameError\<close> without message, line and file name. This is so for every assignable
  name with that prefix.
\<close>

theorem from_import_reserved_name:
  "(can_assign self (Name (PStr ''__x'') ''store'' NoLine) \<longrightarrow>
    parse_from self (5 + k)
     (stream_of [tok 1 ''from'' (PStr ''from''), tok 1 ''name'' (PStr ''t''),
                 tok 1 ''import'' (PStr ''import''), tok 1 ''name'' (PStr ''__x''),
                 tok 1 ''block_end'' (PStr ''%}'')])
    = Inl (NameError ''TemplateAssertionError'')) \<and>
   (can_assign self (Name (PStr ''x'') ''store'' NoLine) \<and>
    can_assign self (Name (PStr ''y'') ''store'' NoLine) \<longrightarrow>
    parse_from self (5 + k)
     (stream_of [tok 1 ''from'' (PStr ''from''), tok 1 ''name'' (PStr ''t''),
                 tok 1 ''import'' (PStr ''import''), tok 1 ''name'' (PStr ''x''),
                 tok 1 ''name'' (PStr ''as''), tok 1 ''name'' (PStr ''y''),
                 tok 1 ''block_end'' (PStr ''%}'')])
    = Inr (FromImport (Name (PStr ''t'') ''load'' (Line 1)) [Aliased (PStr ''x'') (PStr ''y'')]
            (Line 1),
          stream_of [tok 1 ''block_end'' (PStr ''%}'')])) \<and>
   (type (current s) = ''name'' \<and> val (current s) = PStr nm \<and> take 2 nm = ''__'' \<and>
    can_assign self (Name (PStr nm) ''store'' NoLine) \<longrightarrow>
    from_loop self (Suc n) [] s = Inl (NameError ''TemplateAssertionError''))"
  using from_reserved_example [of self k] from_alias_example [of self k]
    reserved_name_raises_name_error [of s nm self n]
  by blast

theorem from_import_reserved_name_witness:
  "parse_from plain_env (5 + 0)
     (stream_of [tok 1 ''from'' (PStr ''from''), tok 1 ''name'' (PStr ''t''),
                 tok 1 ''import'' (PStr ''import''), tok 1 ''name'' (PStr ''__x''),
                 tok 1 ''block_end'' (PStr ''%}'')])
    = Inl (NameError ''TemplateAssertionError'') \<and>
   parse_from plain_env (5 + 0)
     (stream_of [tok 1 ''from'' (PStr ''from''), tok 1 ''name'' (PStr ''t''),
                 tok 1 ''import'' (PStr ''import''), tok 1 ''name'' (PStr ''x''),
                 tok 1 ''name'' (PStr ''as''), tok 1 ''name'' (PStr ''y''),
                 tok 1 ''block_end'' (PStr ''%}'')])
    = Inr (FromImport (Name (PStr ''t'') ''load'' (Line 1)) [Aliased (PStr ''x'') (PStr ''y'')]
            (Line 1),
          stream_of [tok 1 ''block_end'' (PStr ''%}'')])"
proof -
  have reserved: "can_assign plain_env (Name (PStr ''__x'') ''store'' NoLine)"
    by (simp add: plain_env_def)
  have names: "can_assign plain_env (Name (PStr ''x'') ''store'' NoLine) \<and>
               can_assign plain_env (Name (PStr ''y'') ''store'' NoLine)"
    by (simp add: plain_env_def)
  from from_import_reserved_name [of plain_env 0, THEN conjunct1, THEN mp, OF reserved]
    from_import_reserved_name [of plain_env 0, THEN conjunct2, THEN conjunct1, THEN mp, OF names]
  show ?thesis
    by (rule conjI)
qed


section \<open>The line number of an expression statement\<close>

lemma expression_statement:
  assumes "type (current s) \<notin> set statement_keywords"
    and "type (current s) \<noteq> ''call''" and "type (current s) \<noteq> ''filter''"
    and "type (current s) = ''name'' \<longrightarrow> extensions self (val (current s)) = None"
    and "parse_tuple self n (parse_primary self n True) False False False s = Inr (e, s')"
    and "type (current s') \<noteq> ''assign''"
  shows "parse_statement self (Suc n) s = Inr (ExprStmt e (TokLine (current s)), s')"
  using assms
  by (auto simp: bnd_def cur_def ret_def)

lemma expression_statement_example:
  assumes "extensions self (PStr ''x'') = None"
  shows "parse_statement self (5 + k)
     (stream_of [tok 7 ''name'' (PStr ''x''), tok 7 ''block_end'' (PStr ''%}'')])
   = Inr (ExprStmt (Name (PStr ''x'') ''load'' (Line 7)) (TokLine (tok 7 ''name'' (PStr ''x''))),
          stream_of [tok 7 ''block_end'' (PStr ''%}'')])"
  using assms
  by (simp add: stream_defs expr_defs stmt_defs eval_nat_numeral cong: stream_congs)

text \<open>
  C9. The \<^verbatim>\<open>ExprStmt\<close> node of a bare expression statement does not carry the line number
  of the statement's first token: \<^verbatim>\<open>parse_statement\<close> passes the token itself as its
  \<^verbatim>\<open>lineno\<close>. So for the statement \<^verbatim>\<open>x\<close> on line 7, and so for every statement that is
  neither a keyword statement nor an extension's and whose expression no assignment sign
  follows.
\<close>

theorem expr_stmt_lineno_is_token:
  "(extensions self (PStr ''x'') = None \<longrightarrow>
    parse_statement self (5 + k)
      (stream_of [tok 7 ''name'' (PStr ''x''), tok 7 ''block_end'' (PStr ''%}'')])
    = Inr (ExprStmt (Name (PStr ''x'') ''load'' (Line 7))
             (TokLine (tok 7 ''name'' (PStr ''x''))),
           stream_of [tok 7 ''block_end'' (PStr ''%}'')])) \<and>
   (type (current s) \<notin> set statement_keywords \<and>
    type (current s) \<noteq> ''call'' \<and> type (current s) \<noteq> ''filter'' \<and>
    (type (current s) = ''name'' \<longrightarrow> extensions self (val (current s)) = None) \<and>
    parse_tuple self n (parse_primary self n True) False False False s = Inr (e, s') \<and>
    type (current s') \<noteq> ''assign'' \<longrightarrow>
    parse_statement self (Suc n) s = Inr (ExprStmt e (TokLine (current s)), s') \<and>
    TokLine (current s) \<noteq> Line (lineno (current s)))"
  using expression_statement_example [of self k] expression_statement [of s self n e s']
  by simp

theorem expr_stmt_lineno_is_token_witness:
  "parse_statement plain_env (5 + 0)
      (stream_of [tok 7 ''name'' (PStr ''x''), tok 7 ''block_end'' (PStr ''%}'')])
    = Inr (ExprStmt (Name (PStr ''x'') ''load'' (Line 7))
             (TokLine (tok 7 ''name'' (PStr ''x''))),
           stream_of [tok 7 ''block_end'' (PStr ''%}'')])"
proof -
  have none: "extensions plain_env (PStr ''x'') = None"
    by (simp add: plain_env_def)
  from expr_stmt_lineno_is_token [of plain_env 0, THEN conjunct1, THEN mp, OF none]
  show ?thesis .
qed



section \<open>Assignment targets\<close>

text \<open>
  Rules for \<open>post\<close> along the shape of a parser, and from them the validity of the targets
  in what each statement method returns, given it of what \<^verbatim>\<open>parse_statement\<close> returns.
\<close>

lemma postD: "post P m \<Longrightarrow> m s = Inr (a, s') \<Longrightarrow> P a"
  by (auto simp: post_def)

lemma post_ret: "P a \<Longrightarrow> post P (ret a)"
  by (simp add: post_def ret_def)

lemma post_raise: "post P (raise e)"
  by (simp add: post_def raise_def)

lemma post_bnd: "post Q m \<Longrightarrow> (\<And>a. Q a \<Longrightarrow> post P (f a)) \<Longrightarrow> post P (bnd m f)"
  by (fastforce simp: post_def bnd_def split: sum.splits)

lemma post_stream_nonzero: "(\<And>b. post P (f b)) \<Longrightarrow> post P (stream_nonzero f)"
  by (simp add: post_def stream_nonzero_def)

lemma post_when_do: "post (\<lambda>u. True) (when_do c m)"
  by (simp add: post_def)

lemma post_bnd_any: "(\<And>a. post P (f a)) \<Longrightarrow> post P (bnd m f)"
  by (auto simp: post_def bnd_def split: sum.splits)

lemma post_seq: "post P k \<Longrightarrow> post P (seq m k)"
  by (auto simp: post_def seq_def split: sum.splits)

lemma post_cur: "(\<And>t. post P (f t)) \<Longrightarrow> post P (cur f)"
  by (simp add: post_def cur_def)

lemma post_if: "(c \<Longrightarrow> post P a) \<Longrightarrow> (\<not> c \<Longrightarrow> post P b) \<Longrightarrow> post P (if c then a else b)"
  by simp

lemma post_case_option:
  "post P a \<Longrightarrow> (\<And>x. post P (b x)) \<Longrightarrow> post P (case opt of None \<Rightarrow> a | Some x \<Rightarrow> b x)"
  by (cases opt) simp_all

lemma post_eq: "(\<And>s. m s = m' s) \<Longrightarrow> post P m' \<Longrightarrow> post P m"
  by (simp add: post_def)

lemma post_out_of_fuel: "(\<And>s. m s = Inl OutOfFuel) \<Longrightarrow> post P m"
  by (simp add: post_def)

lemmas post_intros = post_ret post_raise post_bnd_any post_seq post_cur post_if post_case_option
  post_stream_nonzero

lemma flush_data_ok:
  "\<forall>x \<in> set body. targets_ok ok x \<Longrightarrow> \<forall>x \<in> set (flush_data body buf). targets_ok ok x"
  by (auto simp: flush_data_def)

lemma post_subparse_loop:
  assumes "post (targets_ok ok) statement"
  shows "\<forall>x \<in> set body. targets_ok ok x \<Longrightarrow>
         post (\<lambda>r. \<forall>x \<in> set r. targets_ok ok x)
           (subparse_loop self n statement end_tokens body buf)"
proof (induction n arbitrary: body buf)
  case 0
  show ?case by (rule post_out_of_fuel) simp
next
  case (Suc n)
  have more: "post (\<lambda>r. \<forall>x \<in> set r. targets_ok ok x)
                (subparse_loop self n statement end_tokens (flush_data body buf @ [node]) [])"
    if "targets_ok ok node" for node
    using that Suc.prems by (intro Suc.IH) (auto simp: flush_data_def)
  from Suc.prems show ?case
    by (intro post_eq [OF subparse_loop.simps(2)] post_intros Suc.IH
        post_bnd [OF assms] more flush_data_ok)
qed

lemma post_subparse:
  "post (targets_ok ok) statement \<Longrightarrow>
   post (\<lambda>r. \<forall>x \<in> set r. targets_ok ok x) (subparse self n statement end_tokens)"
  unfolding subparse_def [abs_def]
  by (rule post_subparse_loop) simp_all

lemma post_parse_statements:
  "post (targets_ok ok) statement \<Longrightarrow>
   post (\<lambda>r. \<forall>x \<in> set r. targets_ok ok x)
     (parse_statements self n statement end_tokens drop_needle)"
  unfolding parse_statements_def [abs_def]
  by (intro post_seq post_bnd [OF post_subparse] post_ret)

lemma post_parse_assign:
  assumes "\<forall>c t. can_assign self (set_ctx self c t) = can_assign self t"
  shows "post (targets_ok (can_assign self)) (parse_assign self n target)"
  unfolding parse_assign_def [abs_def]
  using assms by (intro post_intros) simp

lemma post_parse_for:
  assumes "\<forall>c t. can_assign self (set_ctx self c t) = can_assign self t"
    and "post (targets_ok (can_assign self)) statement"
  shows "post (targets_ok (can_assign self)) (parse_for self n statement)"
  unfolding parse_for_def [abs_def]
  using assms(1)
  by (intro post_bnd_any post_if post_raise post_seq
      post_bnd [OF post_parse_statements [OF assms(2)]] post_ret post_bnd [where Q = "\<lambda>r. \<forall>x \<in> set r. targets_ok (can_assign self) x"] post_parse_statements [OF assms(2)])
     simp_all

lemma post_if_loop:
  assumes "post (targets_ok ok) statement"
  shows "post (targets_ok ok) (if_loop self n statement lno)"
proof (induction n arbitrary: lno)
  case 0
  show ?case by (rule post_out_of_fuel) simp
next
  case (Suc n)
  show ?case
    by (intro post_eq [OF if_loop.simps(2)] post_bnd_any post_cur post_if
        post_bnd [OF post_parse_statements [OF assms]] post_bnd [OF Suc.IH] post_ret)
      simp_all
qed

lemma post_parse_if:
  "post (targets_ok ok) statement \<Longrightarrow> post (targets_ok ok) (parse_if self n statement)"
  unfolding parse_if_def [abs_def]
  by (intro post_bnd_any post_if_loop)

lemma post_parse_block:
  "post (targets_ok ok) statement \<Longrightarrow> post (targets_ok ok) (parse_block self n statement)"
  unfolding parse_block_def [abs_def]
  by (intro post_bnd_any post_bnd [OF post_parse_statements] post_ret) simp_all

lemma post_signature_loop:
  "\<forall>p \<in> set xs. is_param p \<and> can_assign self p \<Longrightarrow>
   post (\<lambda>sig. \<forall>p \<in> set (fst sig). is_param p \<and> can_assign self p)
     (signature_loop self n xs defaults)"
proof (induction n arbitrary: xs defaults)
  case 0
  show ?case by (rule post_out_of_fuel) simp
next
  case (Suc n)
  then show ?case
    by (intro post_eq [OF signature_loop.simps(2)] post_intros Suc.IH) simp_all
qed

lemma post_parse_signature:
  "post (\<lambda>sig. \<forall>p \<in> set (fst sig). is_param p \<and> can_assign self p) (parse_signature self n)"
  unfolding parse_signature_def [abs_def]
  by (intro post_seq post_bnd [OF post_signature_loop] post_ret) simp_all

lemma post_parse_call_block:
  assumes "post (targets_ok (can_assign self)) statement"
  shows "post (targets_ok (can_assign self)) (parse_call_block self n statement)"
  unfolding parse_call_block_def [abs_def]
  by (intro post_bnd_any post_if post_raise post_ret
      post_bnd [OF post_parse_statements [OF assms]]
      post_bnd [where Q = "\<lambda>sig. \<forall>p \<in> set (fst sig). is_param p \<and> can_assign self p"]
      post_cur post_parse_signature)
    simp_all

lemma post_parse_filter_block:
  "post (targets_ok ok) statement \<Longrightarrow>
   post (targets_ok ok) (parse_filter_block self n statement)"
  unfolding parse_filter_block_def [abs_def]
  by (intro post_bnd_any post_bnd [OF post_parse_statements] post_ret) simp_all

lemma post_parse_macro:
  assumes "post (targets_ok (can_assign self)) statement"
  shows "post (targets_ok (can_assign self)) (parse_macro self n statement)"
  unfolding parse_macro_def [abs_def]
  by (intro post_bnd_any post_if post_raise post_ret
      post_bnd [OF post_parse_statements [OF assms]]
      post_bnd [OF post_parse_signature])
    simp_all

lemma post_parse_keyword:
  assumes "\<forall>c t. can_assign self (set_ctx self c t) = can_assign self t"
    and "post (targets_ok (can_assign self)) statement"
  shows "post (targets_ok (can_assign self)) (parse_keyword self n statement token_type)"
proof -
  have simple: "post (targets_ok (can_assign self)) (parse_extends self n)"
    "post (targets_ok (can_assign self)) (parse_include self n)"
    "post (targets_ok (can_assign self)) (parse_import self n)"
    "post (targets_ok (can_assign self)) (parse_from self n)"
    "post (targets_ok (can_assign self)) (parse_print self n)"
    unfolding parse_extends_def [abs_def] parse_include_def [abs_def] parse_import_def [abs_def]
      parse_from_def [abs_def] parse_print_def [abs_def]
    by (intro post_intros; simp)+
  have "parse_keyword self n statement token_type =
     (if token_type = ''for'' then parse_for self n statement
      else if token_type = ''if'' then parse_if self n statement
      else if token_type = ''block'' then parse_block self n statement
      else if token_type = ''extends'' then parse_extends self n
      else if token_type = ''print'' then parse_print self n
      else if token_type = ''macro'' then parse_macro self n statement
      else if token_type = ''include'' then parse_include self n
      else if token_type = ''from'' then parse_from self n
      else if token_type = ''import'' then parse_import self n
      else raise (AttributeError (''parse_'' @ token_type)))"
    by (rule ext) (simp add: parse_keyword_def)
  with assms simple show ?thesis
    by (simp add: post_parse_for post_parse_if post_parse_block post_parse_macro post_raise)
qed

lemma post_parse_statement:
  assumes "\<forall>c t. can_assign self (set_ctx self c t) = can_assign self t"
    and "\<forall>v ext. extensions self v = Some ext \<longrightarrow> post (targets_ok (can_assign self)) ext"
  shows "post (targets_ok (can_assign self)) (parse_statement self n)"
proof (induction n)
  case 0
  show ?case by (rule post_out_of_fuel) simp
next
  case (Suc n)
  have ext: "post (targets_ok (can_assign self))
      (case (if type token = ''name'' then extensions self (val token) else None) of
         Some ext \<Rightarrow> ext
       | None \<Rightarrow>
           bnd (parse_tuple self n (parse_primary self n True) False False False) (\<lambda>e.
           cur (\<lambda>t.
             if type t = ''assign'' then parse_assign self n e
             else ret (ExprStmt e (TokLine token)))))" for token
    using assms(2)
    by (auto split: option.splits
        intro!: post_bnd_any post_cur post_if post_ret post_parse_assign [OF assms(1)])
  show ?case
    by (intro post_eq [OF parse_statement.simps(2)] post_cur post_if
        post_parse_keyword [OF assms(1) Suc] post_parse_call_block [OF Suc]
        post_parse_filter_block [OF Suc] ext)
qed

lemma post_parse:
  assumes "\<forall>c t. can_assign self (set_ctx self c t) = can_assign self t"
    and "\<forall>v ext. extensions self v = Some ext \<longrightarrow> post (targets_ok (can_assign self)) ext"
  shows "post (\<lambda>r. case r of Template body l \<Rightarrow> \<forall>x \<in> set body. targets_ok (can_assign self) x)
           (parse self n)"
  unfolding parse_def [abs_def]
  by (intro post_bnd [OF post_subparse [OF post_parse_statement [OF assms]]] post_ret) simp

lemma lower_class_name_example:
  "lower (class_name (Name (PStr ''true'') ''param'' (Line 1))) = ''name''"
  "lower (class_name (Const (PInt 1) (Line 1))) = ''const''"
  by code_simp+

lemma parse_assign_rejects:
  assumes "type (current s) = ''assign''" and "\<not> can_assign self target"
  shows "parse_assign self n target s =
         Inl (TemplateSyntaxError (Format msg_cant_assign [Str (PStr (lower (class_name target)))])
                (node_lineno target) (filename self))"
  using assms
  by (simp add: parse_assign_def bnd_def raise_def expect_def stream_next_def)

lemma parse_assign_accepts:
  assumes "parse_assign self n target s = Inr (r, s')"
  shows "can_assign self target \<and> (\<exists>e l. r = Assign (set_ctx self ''store'' target) e l)"
  using assms
  by (auto simp: parse_assign_def bnd_def raise_def ret_def split: sum.splits if_splits)

lemma parse_for_rejects:
  assumes "type (current s) = ''for''"
    and "parse_tuple self n (parse_primary self n True) False True False (advance s)
         = Inr (target, s1)"
    and "\<not> can_assign self target"
  shows "parse_for self n statement s =
         Inl (TemplateSyntaxError (Format msg_cant_assign [Str (PStr (lower (class_name target)))])
                (node_lineno target) (filename self))"
  using assms
  by (simp add: parse_for_def bnd_def raise_def expect_def stream_next_def)

lemma parse_for_accepts:
  assumes "parse_for self n statement s = Inr (r, s')"
  shows "\<exists>target s1 iter body else_body test l.
           parse_tuple self n (parse_primary self n True) False True False (advance s)
             = Inr (target, s1) \<and>
           can_assign self target \<and>
           r = For (set_ctx self ''store'' target) iter body else_body test l"
  using assms
  by (auto simp: parse_for_def bnd_def seq_def raise_def ret_def expect_def stream_next_def
      split: sum.splits if_splits)

lemma signature_rejects:
  assumes "type (current s) = ''name''"
    and "\<not> can_assign self (Name (val (current s)) ''param'' (Line (lineno (current s))))"
  shows "signature_loop self (Suc n) [] defaults s =
         Inl (TemplateSyntaxError (Format msg_cant_assign [Str (val (current s))])
                (Line (lineno (current s))) (filename self))"
  using assms
  by (simp add: bnd_def seq_def cur_def ret_def raise_def when_do_def expect_def stream_next_def)

lemma assignable_with_ctx: "assignable (with_ctx c t) = assignable t"
  by (induction c t rule: with_ctx.induct) simp_all

lemma signature_true_example:
  "parse_signature plain_env 2
     (stream_of [tok 1 ''lparen'' (PStr ''(''), tok 1 ''name'' (PStr ''true''),
                 tok 1 ''rparen'' (PStr '')'')])
   = Inl (TemplateSyntaxError (Format msg_cant_assign [Str (PStr ''true'')]) (Line 1) None)"
  by (simp add: stream_defs stmt_defs plain_env_def eval_nat_numeral cong: stream_congs)

text \<open>
  C1, as the code has it. \<^verbatim>\<open>parse_assign\<close> and \<^verbatim>\<open>parse_for\<close> return a node only when
  \<^verbatim>\<open>can_assign\<close> holds of the target, and the node's target is the result of \<^verbatim>\<open>set_ctx\<close> on
  that target; when the check fails they raise the syntax error that names the class of
  the target in lower case. \<^verbatim>\<open>parse_signature\<close> returns only parameters that are names in
  \<^verbatim>\<open>param\<close> context and pass the check; when the check fails it raises the syntax error
  that names the identifier of the parameter. Whenever \<^verbatim>\<open>set_ctx\<close> does not change what
  \<^verbatim>\<open>can_assign\<close> says about a node and every extension returns statements with valid
  targets, every statement that \<^verbatim>\<open>parse_statement\<close> returns and every tree that \<^verbatim>\<open>parse\<close>
  returns has valid targets only.
\<close>

theorem assignment_targets_checked:
  "(parse_assign self n target s = Inr (r, s') \<longrightarrow>
    can_assign self target \<and> (\<exists>e l. r = Assign (set_ctx self ''store'' target) e l)) \<and>
   (type (current s) = ''assign'' \<and> \<not> can_assign self target \<longrightarrow>
    parse_assign self n target s =
    Inl (TemplateSyntaxError (Format msg_cant_assign [Str (PStr (lower (class_name target)))])
           (node_lineno target) (filename self))) \<and>
   (parse_for self n statement s = Inr (r, s') \<longrightarrow>
    (\<exists>target s1 iter body else_body test l.
       parse_tuple self n (parse_primary self n True) False True False (advance s)
         = Inr (target, s1) \<and>
       can_assign self target \<and>
       r = For (set_ctx self ''store'' target) iter body else_body test l)) \<and>
   (type (current s) = ''for'' \<and>
    parse_tuple self n (parse_primary self n True) False True False (advance s)
      = Inr (target, s1) \<and>
    \<not> can_assign self target \<longrightarrow>
    parse_for self n statement s =
    Inl (TemplateSyntaxError (Format msg_cant_assign [Str (PStr (lower (class_name target)))])
           (node_lineno target) (filename self))) \<and>
   (parse_signature self n s = Inr (sig, s') \<longrightarrow>
    (\<forall>p \<in> set (fst sig). is_param p \<and> can_assign self p)) \<and>
   (type (current s) = ''name'' \<and>
    \<not> can_assign self (Name (val (current s)) ''param'' (Line (lineno (current s)))) \<longrightarrow>
    signature_loop self (Suc n) [] defaults s =
    Inl (TemplateSyntaxError (Format msg_cant_assign [Str (val (current s))])
           (Line (lineno (current s))) (filename self))) \<and>
   ((\<forall>c t. can_assign self (set_ctx self c t) = can_assign self t) \<and>
    (\<forall>v ext. extensions self v = Some ext \<longrightarrow> post (targets_ok (can_assign self)) ext) \<longrightarrow>
    (parse_statement self n s = Inr (node, s') \<longrightarrow> targets_ok (can_assign self) node) \<and>
    (parse self n s = Inr (Template body l, s') \<longrightarrow>
     (\<forall>x \<in> set body. targets_ok (can_assign self) x)))"
proof (intro conjI impI)
  assume "parse_assign self n target s = Inr (r, s')"
  then show "can_assign self target"
    and "\<exists>e l. r = Assign (set_ctx self ''store'' target) e l"
    using parse_assign_accepts by blast+
next
  assume "type (current s) = ''assign'' \<and> \<not> can_assign self target"
  then show "parse_assign self n target s =
    Inl (TemplateSyntaxError (Format msg_cant_assign [Str (PStr (lower (class_name target)))])
           (node_lineno target) (filename self))"
    by (simp add: parse_assign_rejects)
next
  assume "parse_for self n statement s = Inr (r, s')"
  then show "\<exists>target s1 iter body else_body test l.
       parse_tuple self n (parse_primary self n True) False True False (advance s)
         = Inr (target, s1) \<and>
       can_assign self target \<and>
       r = For (set_ctx self ''store'' target) iter body else_body test l"
    by (rule parse_for_accepts)
next
  assume "type (current s) = ''for'' \<and>
    parse_tuple self n (parse_primary self n True) False True False (advance s)
      = Inr (target, s1) \<and>
    \<not> can_assign self target"
  then show "parse_for self n statement s =
    Inl (TemplateSyntaxError (Format msg_cant_assign [Str (PStr (lower (class_name target)))])
           (node_lineno target) (filename self))"
    using parse_for_rejects by blast
next
  assume "parse_signature self n s = Inr (sig, s')"
  then show "\<forall>p \<in> set (fst sig). is_param p \<and> can_assign self p"
    by (rule postD [OF post_parse_signature])
next
  assume "type (current s) = ''name'' \<and>
    \<not> can_assign self (Name (val (current s)) ''param'' (Line (lineno (current s))))"
  then show "signature_loop self (Suc n) [] defaults s =
    Inl (TemplateSyntaxError (Format msg_cant_assign [Str (val (current s))])
           (Line (lineno (current s))) (filename self))"
    using signature_rejects by blast
next
  assume env: "(\<forall>c t. can_assign self (set_ctx self c t) = can_assign self t) \<and>
    (\<forall>v ext. extensions self v = Some ext \<longrightarrow> post (targets_ok (can_assign self)) ext)"
  assume "parse_statement self n s = Inr (node, s')"
  with env show "targets_ok (can_assign self) node"
    using postD [OF post_parse_statement] by blast
next
  assume env: "(\<forall>c t. can_assign self (set_ctx self c t) = can_assign self t) \<and>
    (\<forall>v ext. extensions self v = Some ext \<longrightarrow> post (targets_ok (can_assign self)) ext)"
  assume "parse self n s = Inr (Template body l, s')"
  with env postD [OF post_parse, of self n s "Template body l" s']
  show "\<forall>x \<in> set body. targets_ok (can_assign self) x"
    by simp
qed

theorem signature_error_names_identifier:
  "parse_signature plain_env 2
     (stream_of [tok 1 ''lparen'' (PStr ''(''), tok 1 ''name'' (PStr ''true''),
                 tok 1 ''rparen'' (PStr '')'')])
   = Inl (TemplateSyntaxError (Format msg_cant_assign [Str (PStr ''true'')]) (Line 1) None) \<and>
   parse_signature plain_env 2
     (stream_of [tok 1 ''lparen'' (PStr ''(''), tok 1 ''name'' (PStr ''true''),
                 tok 1 ''rparen'' (PStr '')'')])
   \<noteq> Inl (TemplateSyntaxError
            (Format msg_cant_assign
               [Str (PStr (lower (class_name (Name (PStr ''true'') ''param'' (Line 1)))))])
            (Line 1) None)"
proof -
  have "Str (PStr ''true'') \<noteq>
        Str (PStr (lower (class_name (Name (PStr ''true'') ''param'' (Line 1)))))"
    by (simp only: lower_class_name_example) simp
  then show ?thesis
    by (simp only: signature_true_example) simp
qed

lemma assign_statement_example:
  "parse_statement plain_env 5
     (stream_of [tok 1 ''name'' (PStr ''x''), tok 1 ''assign'' (PStr ''=''),
                 tok 1 ''integer'' (PInt 2), tok 1 ''block_end'' (PStr ''%}'')])
   = Inr (Assign (Name (PStr ''x'') ''store'' (Line 1)) (Const (PInt 2) (Line 1)) (Line 1),
          stream_of [tok 1 ''block_end'' (PStr ''%}'')])"
  by (simp add: stream_defs expr_defs stmt_defs plain_env_def eval_nat_numeral
      cong: stream_congs)

theorem assignment_targets_checked_witness:
  "parse_assign plain_env 3 (Const (PInt 1) (Line 1))
     (stream_of [tok 1 ''assign'' (PStr ''=''), tok 1 ''integer'' (PInt 2)])
   = Inl (TemplateSyntaxError
            (Format msg_cant_assign [Str (PStr (lower (class_name (Const (PInt 1) (Line 1)))))])
            (Line 1) None) \<and>
   signature_loop plain_env (Suc 0) [] []
     (stream_of [tok 1 ''name'' (PStr ''true''), tok 1 ''rparen'' (PStr '')'')])
   = Inl (TemplateSyntaxError (Format msg_cant_assign [Str (PStr ''true'')]) (Line 1) None) \<and>
   targets_ok (can_assign plain_env)
     (Assign (Name (PStr ''x'') ''store'' (Line 1)) (Const (PInt 2) (Line 1)) (Line 1))"
proof -
  let ?assign = "stream_of [tok 1 ''assign'' (PStr ''=''), tok 1 ''integer'' (PInt 2)]"
  let ?param = "stream_of [tok 1 ''name'' (PStr ''true''), tok 1 ''rparen'' (PStr '')'')]"
  let ?stmt = "stream_of [tok 1 ''name'' (PStr ''x''), tok 1 ''assign'' (PStr ''=''),
                 tok 1 ''integer'' (PInt 2), tok 1 ''block_end'' (PStr ''%}'')]"
  have const: "type (current ?assign) = ''assign'' \<and>
               \<not> can_assign plain_env (Const (PInt 1) (Line 1))"
    by (simp add: stream_defs plain_env_def)
  have true: "type (current ?param) = ''name'' \<and>
              \<not> can_assign plain_env
                  (Name (val (current ?param)) ''param'' (Line (lineno (current ?param))))"
    by (simp add: stream_defs plain_env_def)
  have param: "val (current ?param) = PStr ''true''" "lineno (current ?param) = 1"
    "filename plain_env = None" "node_lineno (Const (PInt 1) (Line 1)) = Line 1"
    by (simp_all add: stream_defs plain_env_def)
  have env: "(\<forall>c t. can_assign plain_env (set_ctx plain_env c t) = can_assign plain_env t) \<and>
    (\<forall>v ext. extensions plain_env v = Some ext \<longrightarrow>
       post (targets_ok (can_assign plain_env)) ext)"
    by (simp add: plain_env_def assignable_with_ctx)
  note checked = assignment_targets_checked [where self = plain_env]
  have one: "parse_assign plain_env 3 (Const (PInt 1) (Line 1)) ?assign =
    Inl (TemplateSyntaxError
           (Format msg_cant_assign [Str (PStr (lower (class_name (Const (PInt 1) (Line 1)))))])
           (node_lineno (Const (PInt 1) (Line 1))) (filename plain_env))"
    using checked [where s = ?assign and target = "Const (PInt 1) (Line 1)" and n = 3] const
    by blast
  have two: "signature_loop plain_env (Suc 0) [] [] ?param =
    Inl (TemplateSyntaxError (Format msg_cant_assign [Str (val (current ?param))])
           (Line (lineno (current ?param))) (filename plain_env))"
    using checked [where s = ?param and n = 0 and defaults = "[]"] true
    by blast
  have three: "targets_ok (can_assign plain_env)
     (Assign (Name (PStr ''x'') ''store'' (Line 1)) (Const (PInt 2) (Line 1)) (Line 1))"
    using checked [where s = ?stmt and n = 5
        and node = "Assign (Name (PStr ''x'') ''store'' (Line 1)) (Const (PInt 2) (Line 1))
                      (Line 1)"
        and s' = "stream_of [tok 1 ''block_end'' (PStr ''%}'')]"]
      env assign_statement_example
    by blast
  from one two three show ?thesis
    unfolding param by (intro conjI)
qed


end
